theory Spec2Isabelle
  imports Main "HOL-Library.Word"
begin

section \<open>The C data model\<close>

text \<open>
  The logger is C. Its \<^verbatim>\<open>int\<close> is modelled as a 32-bit word read in two's
  complement (\<open>sint\<close>), its \<^verbatim>\<open>size_t\<close> as a 64-bit word read unsigned
  (\<open>unat\<close>). A conversion between the two is \<open>scast\<close> (int to size_t, sign
  extending) or \<open>ucast\<close> (size_t to int, keeping the low 32 bits). Signed overflow,
  which C leaves undefined, wraps in the model. A \<^verbatim>\<open>char*\<close> argument is a
  \<open>string option\<close>, \<open>None\<close> being the null pointer; the string is the bytes
  before the terminating NUL.
\<close>

type_synonym c_int = "32 word"
type_synonym size_t = "64 word"

definition strlen :: "string \<Rightarrow> size_t" where
  "strlen s = of_nat (length s)"

definition NUL :: char where
  "NUL = CHR 0x00"

definition LF :: char where
  "LF = CHR 0x0A"

definition MAX_STR_SIZE :: nat where
  "MAX_STR_SIZE = 128"

definition LOG_EXTRA_STR_LENGTH :: size_t where
  "LOG_EXTRA_STR_LENGTH = 6"

datatype TextLoggerStatusType =
    TEXTLOGGER_SUCCESS
  | TEXTLOGGER_ERR_FILE_ERROR
  | TEXTLOGGER_ERR_INVALID_INPUT
  | TEXTLOGGER_ERR_INSUFFICIENT_FILE_SPACE

datatype LogLevelType =
    LOG_LEVEL_ERROR
  | LOG_LEVEL_WARN
  | LOG_LEVEL_INFO
  | LOG_LEVEL_DEBUG
  | LOG_LEVEL_VERBOSE

text \<open>The enumerators' values: \<^verbatim>\<open>LOG_LEVEL_ERROR = 1\<close> and counting up.\<close>

fun level_value :: "LogLevelType \<Rightarrow> c_int" where
  "level_value LOG_LEVEL_ERROR = 1"
| "level_value LOG_LEVEL_WARN = 2"
| "level_value LOG_LEVEL_INFO = 3"
| "level_value LOG_LEVEL_DEBUG = 4"
| "level_value LOG_LEVEL_VERBOSE = 5"

text \<open>
  \<^verbatim>\<open>struct LoggerContext\<close>. \<open>pTextBuffer\<close> is the allocated region itself, one
  \<open>char\<close> per byte, so its length is the size that was requested from \<^verbatim>\<open>malloc\<close>.
  The field \<^verbatim>\<open>pLogFile\<close> is left out: every function that opens the file closes
  it before it returns, and nothing reads the field in between calls.
\<close>

record LoggerContext =
  pTextBuffer :: "char list"
  pFilePath :: string
  pErrMsg :: string
  logLevel :: c_int
  maxBufferByteSize :: c_int
  maxFileSize :: c_int
  currBytePos :: c_int
  totalBytesStored :: c_int
  fileLimitIsReached :: bool

section \<open>The environment: allocator, clock, file system\<close>

text \<open>
  \<^verbatim>\<open>malloc\<close> is a parameter of \<open>TextLogger_Create\<close>: a predicate that says
  which request sizes are granted. \<open>sizeof_LoggerContext\<close> is the size of the struct
  under LP64 (four pointers, five ints, a bool, padding).
\<close>

definition sizeof_LoggerContext :: nat where
  "sizeof_LoggerContext = 56"

text \<open>\<^verbatim>\<open>struct tm\<close>, as far as the logger reads it.\<close>

record tm =
  tm_year :: c_int
  tm_mon :: c_int
  tm_mday :: c_int
  tm_hour :: c_int
  tm_min :: c_int
  tm_sec :: c_int

text \<open>
  The file system maps a path to the bytes of the file there (no bytes when there is no
  file: opening for append creates it). The operating system may refuse to open a file,
  and a write may fall short in two ways: \<^verbatim>\<open>fwrite\<close> itself transfers and reports
  fewer bytes than asked, or \<^verbatim>\<open>fwrite\<close> takes all bytes into the buffer of the
  stream and reports them all, and fewer reach the file when \<^verbatim>\<open>fclose\<close> empties
  that buffer. \<open>os_script\<close> lists the answers to the coming \<^verbatim>\<open>fopen\<close> calls,
  one per call, and an empty script means that every call succeeds in full.
  \<open>fwrites\<close> is a ghost trace of the blocks that the \<^verbatim>\<open>fwrite\<close> calls have
  reported as written, oldest first.
\<close>

datatype os_reply = OpenFails | WritesAtMost nat | WritesAll | ClosesShort nat

record world =
  files :: "string \<Rightarrow> string"
  os_script :: "os_reply list"
  fwrites :: "string list"

text \<open>
  An open stream. \<open>Stream path limit\<close> writes through: its next write transfers at
  most \<open>limit\<close> bytes. \<open>Buffered path k held\<close> holds the bytes \<open>held\<close>, of
  which at most \<open>k\<close> will reach the file when it is closed.
\<close>

datatype stream = Stream string "nat option" | Buffered string nat string

definition fopen_ab :: "world \<Rightarrow> string \<Rightarrow> stream option \<times> world" where
  "fopen_ab w path =
     (case os_script w of
        [] \<Rightarrow> (Some (Stream path None), w)
      | OpenFails # rs \<Rightarrow> (None, w\<lparr>os_script := rs\<rparr>)
      | WritesAtMost k # rs \<Rightarrow> (Some (Stream path (Some k)), w\<lparr>os_script := rs\<rparr>)
      | WritesAll # rs \<Rightarrow> (Some (Stream path None), w\<lparr>os_script := rs\<rparr>)
      | ClosesShort k # rs \<Rightarrow> (Some (Buffered path k []), w\<lparr>os_script := rs\<rparr>))"

definition fwrite :: "world \<Rightarrow> stream \<Rightarrow> string \<Rightarrow> nat \<times> stream \<times> world" where
  "fwrite w f bytes =
     (case f of
        Stream path limit \<Rightarrow>
          let k = (case limit of None \<Rightarrow> length bytes | Some m \<Rightarrow> min m (length bytes))
          in (k, f, w\<lparr>files := (files w)(path := files w path @ take k bytes),
                       fwrites := fwrites w @ [take k bytes]\<rparr>)
      | Buffered path k held \<Rightarrow>
          (length bytes, Buffered path k (held @ bytes), w\<lparr>fwrites := fwrites w @ [bytes]\<rparr>))"

text \<open>
  \<^verbatim>\<open>fclose\<close>, whose result the logger never looks at: a buffered stream hands what
  it holds to the file, as far as the operating system takes it.
\<close>

definition fclose :: "world \<Rightarrow> stream \<Rightarrow> world" where
  "fclose w f =
     (case f of
        Stream path limit \<Rightarrow> w
      | Buffered path k held \<Rightarrow> w\<lparr>files := (files w)(path := files w path @ take k held)\<rparr>)"

text \<open>
  \<^verbatim>\<open>fseek(f, 0, SEEK_END); ftell(f)\<close>: the length of the file. The logger does not
  test either call for failure, and the model lets neither fail.
\<close>

definition ftell_end :: "world \<Rightarrow> stream \<Rightarrow> int" where
  "ftell_end w f =
     (case f of
        Stream path limit \<Rightarrow> int (length (files w path))
      | Buffered path k held \<Rightarrow> int (length (files w path)))"

section \<open>The formatter\<close>

text \<open>\<^verbatim>\<open>printf\<close>'s \<^verbatim>\<open>%0wd\<close>: decimal, zero-padded to width \<open>w\<close>, sign first.\<close>

fun dec :: "nat \<Rightarrow> string" where
  "dec n = (if n < 10 then [''0123456789'' ! n] else dec (n div 10) @ [''0123456789'' ! (n mod 10)])"

declare dec.simps [simp del]

definition fmt_0d :: "nat \<Rightarrow> int \<Rightarrow> string" where
  "fmt_0d w i =
     (let ds = dec (nat \<bar>i\<bar>); sg = (if i < 0 then ''-'' else '''')
      in sg @ replicate (w - length sg - length ds) (CHR ''0'') @ ds)"

text \<open>
  The time string of \<open>TextLogger_LogTimeStamp\<close>:
  \<^verbatim>\<open>snprintf(pTimeBuffer, sizeof(pTimeBuffer), "[%04d-%02d-%02d | %02d:%02d:%02d] ", ...)\<close>
  into a buffer of \<open>MAX_STR_SIZE\<close> bytes, which keeps at most \<open>MAX_STR_SIZE - 1\<close>
  characters.
\<close>

definition format_time :: "tm \<Rightarrow> string" where
  "format_time t =
     take (MAX_STR_SIZE - 1)
       (''['' @ fmt_0d 4 (sint (tm_year t + 1900)) @ ''-'' @ fmt_0d 2 (sint (tm_mon t + 1))
        @ ''-'' @ fmt_0d 2 (sint (tm_mday t)) @ '' | '' @ fmt_0d 2 (sint (tm_hour t))
        @ '':'' @ fmt_0d 2 (sint (tm_min t)) @ '':'' @ fmt_0d 2 (sint (tm_sec t)) @ ''] '')"

text \<open>
  \<^verbatim>\<open>snprintf(buf + off, n, ...)\<close> where the formatted text is \<open>s\<close>: when
  \<open>n > 0\<close> it stores the first \<open>min (length s) (n - 1)\<close> characters of \<open>s\<close> and
  a NUL at \<open>buf + off\<close>, and in every case it returns the length of \<open>s\<close>, the
  number of characters that a large enough \<open>n\<close> would have stored (\<open>-1\<close> when
  that length is not an \<^verbatim>\<open>int\<close>). A store outside the allocated region is
  undefined behaviour: the model answers \<open>None\<close>.
\<close>

definition snprintf :: "char list \<Rightarrow> c_int \<Rightarrow> size_t \<Rightarrow> string \<Rightarrow> (char list \<times> c_int) option" where
  "snprintf buf off n s =
     (let k = min (length s) (unat n - 1);
          ret = (if length s \<le> 2147483647 then of_nat (length s) else - 1)
      in if n = 0 then Some (buf, ret)
         else if 0 \<le> sint off \<and> nat (sint off) + k + 1 \<le> length buf
         then Some (take (nat (sint off)) buf @ take k s @ [NUL]
                      @ drop (nat (sint off) + k + 1) buf, ret)
         else None)"

text \<open>\<^verbatim>\<open>i += b\<close> for an \<^verbatim>\<open>int i\<close> and a \<^verbatim>\<open>size_t b\<close>: the sum is
  taken in \<^verbatim>\<open>size_t\<close> and converted back.\<close>

definition add_size_t :: "c_int \<Rightarrow> size_t \<Rightarrow> c_int" where
  "add_size_t i b = ucast ((scast i :: size_t) + b)"

section \<open>The logger\<close>

subsection \<open>Create\<close>

definition TextLogger_Create ::
  "(nat \<Rightarrow> bool) \<Rightarrow> string option \<Rightarrow> string option \<Rightarrow> c_int \<Rightarrow> c_int \<Rightarrow> c_int
     \<Rightarrow> LoggerContext option" where
  "TextLogger_Create malloc filePath errMsg level bufferSize fileSize =
     (case (filePath, errMsg) of
        (Some path, Some err) \<Rightarrow>
          if \<not> malloc sizeof_LoggerContext then None
          else
            let effective = (ucast ((scast fileSize :: size_t) - (strlen err + 1)) :: c_int)
            in if sint effective \<le> 0 then None
               else if \<not> malloc (unat (strlen path + 1)) then None
               else if \<not> malloc (unat (1 * (scast bufferSize :: size_t))) then None
               else if \<not> malloc (unat (1 * (strlen err + 1))) then None
               else Some \<lparr>pTextBuffer = replicate (unat (1 * (scast bufferSize :: size_t))) NUL,
                          pFilePath = path,
                          pErrMsg = err,
                          logLevel = level,
                          maxBufferByteSize = bufferSize,
                          maxFileSize = effective,
                          currBytePos = 0,
                          totalBytesStored = 0,
                          fileLimitIsReached = False\<rparr>
      | _ \<Rightarrow> None)"

subsection \<open>The flush decision\<close>

definition TextLogger_FlushBufferIsNeeded :: "LoggerContext \<Rightarrow> c_int \<Rightarrow> bool" where
  "TextLogger_FlushBufferIsNeeded c lengthOfTextToAdd =
     (if sint (maxFileSize c - totalBytesStored c) \<le> sint lengthOfTextToAdd \<or>
         sint (maxBufferByteSize c - currBytePos c) \<le> sint lengthOfTextToAdd
      then True else False)"

subsection \<open>Flush\<close>

definition TextLogger_FlushErrMsgToFileStream ::
  "world \<Rightarrow> LoggerContext \<Rightarrow> TextLoggerStatusType \<times> world" where
  "TextLogger_FlushErrMsgToFileStream w c =
     (case fopen_ab w (pFilePath c) of
        (None, w1) \<Rightarrow> (TEXTLOGGER_ERR_FILE_ERROR, w1)
      | (Some f, w1) \<Rightarrow>
          (case fwrite w1 f (pErrMsg c) of
             (bytesWritten, f2, w2) \<Rightarrow>
               if bytesWritten \<noteq> length (pErrMsg c)
               then (TEXTLOGGER_ERR_FILE_ERROR, fclose w2 f2)
               else (TEXTLOGGER_SUCCESS, fclose w2 f2)))"

text \<open>
  The body of \<open>TextLogger_FlushTextToFileStream\<close> after its null test. The result is
  \<open>None\<close> when the C has no defined behaviour: \<^verbatim>\<open>fwrite\<close> is asked for
  \<open>currBytePos\<close> bytes (converted to \<^verbatim>\<open>size_t\<close>) of a buffer that is shorter.
  \<open>currBytePos + currFileSize\<close> is a sum of \<^verbatim>\<open>long\<close>s, 64 bits wide under
  LP64, and is taken in \<open>int\<close>: it cannot leave 64 bits for a file shorter than
  \<open>2^63 - 2^31\<close> bytes.
\<close>

definition flush_body ::
  "world \<Rightarrow> LoggerContext \<Rightarrow> (TextLoggerStatusType \<times> LoggerContext \<times> world) option" where
  "flush_body w c =
     (if sint (maxFileSize c) \<le> sint (totalBytesStored c) then
        (if \<not> fileLimitIsReached c then
           (let c1 = c\<lparr>fileLimitIsReached := True\<rparr> in
            case TextLogger_FlushErrMsgToFileStream w c1 of
              (status, w1) \<Rightarrow>
                if status = TEXTLOGGER_ERR_FILE_ERROR
                then Some (TEXTLOGGER_ERR_FILE_ERROR, c1, w1)
                else Some (TEXTLOGGER_ERR_INSUFFICIENT_FILE_SPACE, c1, w1))
         else Some (TEXTLOGGER_ERR_INSUFFICIENT_FILE_SPACE, c, w))
      else if currBytePos c = 0 then Some (TEXTLOGGER_SUCCESS, c, w)
      else
        (case fopen_ab w (pFilePath c) of
           (None, w1) \<Rightarrow> Some (TEXTLOGGER_ERR_FILE_ERROR, c, w1)
         | (Some f, w1) \<Rightarrow>
             let currFileSize = ftell_end w1 f in
             if sint (currBytePos c) + currFileSize > sint (maxFileSize c) then
               Some (TEXTLOGGER_ERR_INSUFFICIENT_FILE_SPACE,
                     c\<lparr>fileLimitIsReached := True, currBytePos := 0\<rparr>, fclose w1 f)
             else
               let count = unat (scast (currBytePos c) :: size_t) in
               if length (pTextBuffer c) < count then None
               else
                 (case fwrite w1 f (take count (pTextBuffer c)) of
                    (bytesWritten, f2, w2) \<Rightarrow>
                      if bytesWritten \<noteq> count
                      then Some (TEXTLOGGER_ERR_FILE_ERROR, c, fclose w2 f2)
                      else Some (TEXTLOGGER_SUCCESS, c\<lparr>currBytePos := 0\<rparr>, fclose w2 f2))))"

text \<open>
  A public function takes the handle as a pointer, \<open>None\<close> being null, and gives back
  the status, the context the pointer then points to, and the world.
\<close>

type_synonym outcome = "(TextLoggerStatusType \<times> LoggerContext option \<times> world) option"

definition returning ::
  "(TextLoggerStatusType \<times> LoggerContext \<times> world) option \<Rightarrow> outcome" where
  "returning r = (case r of None \<Rightarrow> None | Some (status, c, w) \<Rightarrow> Some (status, Some c, w))"

definition TextLogger_FlushTextToFileStream :: "world \<Rightarrow> LoggerContext option \<Rightarrow> outcome" where
  "TextLogger_FlushTextToFileStream w p =
     (case p of
        None \<Rightarrow> Some (TEXTLOGGER_ERR_INVALID_INPUT, None, w)
      | Some c \<Rightarrow> returning (flush_body w c))"

subsection \<open>Destroy\<close>

text \<open>The context is freed: only the status and the world remain.\<close>

definition TextLogger_Destroy ::
  "world \<Rightarrow> LoggerContext option \<Rightarrow> (TextLoggerStatusType \<times> world) option" where
  "TextLogger_Destroy w p =
     (case p of
        None \<Rightarrow> Some (TEXTLOGGER_ERR_INVALID_INPUT, w)
      | Some c \<Rightarrow>
          (case flush_body w c of
             None \<Rightarrow> None
           | Some (status, c1, w1) \<Rightarrow> Some (status, w1)))"

subsection \<open>Time stamps and records\<close>

text \<open>
  Both writers end in the same three statements: \<^verbatim>\<open>snprintf\<close> at
  \<open>pTextBuffer + currBytePos\<close> with the room \<open>maxBufferByteSize - currBytePos\<close>
  (an \<^verbatim>\<open>int\<close>, converted to \<^verbatim>\<open>size_t\<close>), then both counters advanced by
  what \<^verbatim>\<open>snprintf\<close> returned (an \<^verbatim>\<open>int\<close>, stored in a \<^verbatim>\<open>size_t\<close>).
\<close>

definition write_to_buffer :: "LoggerContext \<Rightarrow> string \<Rightarrow> LoggerContext option" where
  "write_to_buffer c s =
     (case snprintf (pTextBuffer c) (currBytePos c)
             (scast (maxBufferByteSize c - currBytePos c)) s of
        None \<Rightarrow> None
      | Some (buf, ret) \<Rightarrow>
          let bytesWritten = (scast ret :: size_t) in
          Some (c\<lparr>pTextBuffer := buf,
                  currBytePos := add_size_t (currBytePos c) bytesWritten,
                  totalBytesStored := add_size_t (totalBytesStored c) bytesWritten\<rparr>))"

text \<open>
  The body of \<open>TextLogger_LogTimeStamp\<close> after its null test; \<open>t\<close> is what
  \<^verbatim>\<open>localtime\<close> answers when the function asks for the time.
\<close>

definition timestamp_body ::
  "tm \<Rightarrow> world \<Rightarrow> LoggerContext \<Rightarrow> (TextLoggerStatusType \<times> LoggerContext \<times> world) option" where
  "timestamp_body t w c =
     (let pTimeBuffer = format_time t in
      case (if TextLogger_FlushBufferIsNeeded c (ucast (strlen pTimeBuffer))
            then flush_body w c else Some (TEXTLOGGER_SUCCESS, c, w)) of
        None \<Rightarrow> None
      | Some (status, c1, w1) \<Rightarrow>
          if status \<noteq> TEXTLOGGER_SUCCESS then Some (status, c1, w1)
          else
            (case write_to_buffer c1 pTimeBuffer of
               None \<Rightarrow> None
             | Some c2 \<Rightarrow> Some (TEXTLOGGER_SUCCESS, c2, w1)))"

definition TextLogger_LogTimeStamp :: "tm \<Rightarrow> world \<Rightarrow> LoggerContext option \<Rightarrow> outcome" where
  "TextLogger_LogTimeStamp t w p =
     (case p of
        None \<Rightarrow> Some (TEXTLOGGER_ERR_INVALID_INPUT, None, w)
      | Some c \<Rightarrow> returning (timestamp_body t w c))"

fun log_msg_tag :: "LogLevelType \<Rightarrow> string" where
  "log_msg_tag LOG_LEVEL_ERROR = ''[E]: ''"
| "log_msg_tag LOG_LEVEL_WARN = ''[W]: ''"
| "log_msg_tag LOG_LEVEL_INFO = ''[I]: ''"
| "log_msg_tag LOG_LEVEL_DEBUG = ''[D]: ''"
| "log_msg_tag LOG_LEVEL_VERBOSE = ''[V]: ''"

text \<open>
  The static \<open>TextLogger_WriteToBuffer\<close>. Its own null test is left out: its five
  callers have made it, and so it enters \<open>TextLogger_LogTimeStamp\<close> and
  \<open>TextLogger_FlushTextToFileStream\<close> past their null tests.
\<close>

definition TextLogger_WriteToBuffer ::
  "tm \<Rightarrow> world \<Rightarrow> LoggerContext \<Rightarrow> string \<Rightarrow> c_int \<Rightarrow> LogLevelType
     \<Rightarrow> (TextLoggerStatusType \<times> LoggerContext \<times> world) option" where
  "TextLogger_WriteToBuffer t w c pLogText logLength level =
     (let pLogMsgTag = log_msg_tag level in
      case timestamp_body t w c of
        None \<Rightarrow> None
      | Some (status, c1, w1) \<Rightarrow>
          if status \<noteq> TEXTLOGGER_SUCCESS then Some (status, c1, w1)
          else
            (case (if TextLogger_FlushBufferIsNeeded c1 logLength
                   then flush_body w1 c1 else Some (TEXTLOGGER_SUCCESS, c1, w1)) of
               None \<Rightarrow> None
             | Some (status2, c2, w2) \<Rightarrow>
                 if status2 \<noteq> TEXTLOGGER_SUCCESS then Some (status2, c2, w2)
                 else
                   (case write_to_buffer c2 (pLogMsgTag @ pLogText @ [LF]) of
                      None \<Rightarrow> None
                    | Some c3 \<Rightarrow> Some (TEXTLOGGER_SUCCESS, c3, w2))))"

text \<open>
  The five per-severity functions are one text with five level constants:
  \<open>log_call level\<close> is that text.
\<close>

definition log_call ::
  "LogLevelType \<Rightarrow> tm \<Rightarrow> world \<Rightarrow> LoggerContext option \<Rightarrow> string option \<Rightarrow> outcome" where
  "log_call level t w p text =
     (case (p, text) of
        (Some c, Some pLogText) \<Rightarrow>
          if sint (level_value level) \<le> sint (logLevel c) then
            (let logLength = strlen pLogText + LOG_EXTRA_STR_LENGTH in
             returning (TextLogger_WriteToBuffer t w c pLogText (ucast logLength) level))
          else Some (TEXTLOGGER_SUCCESS, Some c, w)
      | _ \<Rightarrow> Some (TEXTLOGGER_ERR_INVALID_INPUT, p, w))"

definition TextLogger_LogError :: "tm \<Rightarrow> world \<Rightarrow> LoggerContext option \<Rightarrow> string option \<Rightarrow> outcome" where
  "TextLogger_LogError = log_call LOG_LEVEL_ERROR"

definition TextLogger_LogWarn :: "tm \<Rightarrow> world \<Rightarrow> LoggerContext option \<Rightarrow> string option \<Rightarrow> outcome" where
  "TextLogger_LogWarn = log_call LOG_LEVEL_WARN"

definition TextLogger_LogInfo :: "tm \<Rightarrow> world \<Rightarrow> LoggerContext option \<Rightarrow> string option \<Rightarrow> outcome" where
  "TextLogger_LogInfo = log_call LOG_LEVEL_INFO"

definition TextLogger_LogDebug :: "tm \<Rightarrow> world \<Rightarrow> LoggerContext option \<Rightarrow> string option \<Rightarrow> outcome" where
  "TextLogger_LogDebug = log_call LOG_LEVEL_DEBUG"

definition TextLogger_LogVerbose :: "tm \<Rightarrow> world \<Rightarrow> LoggerContext option \<Rightarrow> string option \<Rightarrow> outcome" where
  "TextLogger_LogVerbose = log_call LOG_LEVEL_VERBOSE"

text \<open>
  \<open>TextLogger_PrintCurrFileSize\<close> is left out: it opens the file, prints two lengths
  and \<open>totalBytesStored\<close>, and assigns nothing but the stream field.
\<close>

section \<open>Notions the properties are stated with\<close>

text \<open>
  The five per-severity functions, indexed by their level.
\<close>

fun severity_call ::
  "LogLevelType \<Rightarrow> tm \<Rightarrow> world \<Rightarrow> LoggerContext option \<Rightarrow> string option \<Rightarrow> outcome" where
  "severity_call LOG_LEVEL_ERROR = TextLogger_LogError"
| "severity_call LOG_LEVEL_WARN = TextLogger_LogWarn"
| "severity_call LOG_LEVEL_INFO = TextLogger_LogInfo"
| "severity_call LOG_LEVEL_DEBUG = TextLogger_LogDebug"
| "severity_call LOG_LEVEL_VERBOSE = TextLogger_LogVerbose"

text \<open>
  A call of a public function that logs or flushes, a sequence of calls made one after
  the other on the same handle, and the status with which a context whose budget is used
  up answers a call.
\<close>

datatype call = FlushCall | StampCall tm | LogCall LogLevelType tm string

fun perform :: "call \<Rightarrow> world \<Rightarrow> LoggerContext option \<Rightarrow> outcome" where
  "perform FlushCall w p = TextLogger_FlushTextToFileStream w p"
| "perform (StampCall t) w p = TextLogger_LogTimeStamp t w p"
| "perform (LogCall level t msg) w p = severity_call level t w p (Some msg)"

fun perform_all ::
  "call list \<Rightarrow> world \<Rightarrow> LoggerContext option
     \<Rightarrow> (TextLoggerStatusType list \<times> LoggerContext option \<times> world) option" where
  "perform_all [] w p = Some ([], p, w)"
| "perform_all (k # ks) w p =
     (case perform k w p of
        None \<Rightarrow> None
      | Some (st, p1, w1) \<Rightarrow>
          (case perform_all ks w1 p1 of
             None \<Rightarrow> None
           | Some (sts, p2, w2) \<Rightarrow> Some (st # sts, p2, w2)))"

fun refusal :: "LoggerContext \<Rightarrow> call \<Rightarrow> TextLoggerStatusType" where
  "refusal c (LogCall level t msg) =
     (if sint (level_value level) \<le> sint (logLevel c)
      then TEXTLOGGER_ERR_INSUFFICIENT_FILE_SPACE else TEXTLOGGER_SUCCESS)"
| "refusal c k = TEXTLOGGER_ERR_INSUFFICIENT_FILE_SPACE"

text \<open>
  The step that \<open>timestamp_body\<close> and \<open>TextLogger_WriteToBuffer\<close> both take for a
  text \<open>s\<close> announced with the length \<open>n\<close>: flush if the decision says so, give
  up on a failed flush, otherwise write. Both functions are shown below to be built from
  it.
\<close>

definition buffered_write ::
  "world \<Rightarrow> LoggerContext \<Rightarrow> string \<Rightarrow> c_int
     \<Rightarrow> (TextLoggerStatusType \<times> LoggerContext \<times> world) option" where
  "buffered_write w c s n =
     (case (if TextLogger_FlushBufferIsNeeded c n
            then flush_body w c else Some (TEXTLOGGER_SUCCESS, c, w)) of
        None \<Rightarrow> None
      | Some (status, c1, w1) \<Rightarrow>
          if status \<noteq> TEXTLOGGER_SUCCESS then Some (status, c1, w1)
          else
            (case write_to_buffer c1 s of
               None \<Rightarrow> None
             | Some c2 \<Rightarrow> Some (TEXTLOGGER_SUCCESS, c2, w1)))"

text \<open>
  The ledger bound \<open>0 \<le> currBytePos \<le> maxBufferByteSize\<close>; that the buffer has the
  size that create asked for; and the bytes that a flush hands to \<^verbatim>\<open>fwrite\<close>.
\<close>

definition ledger_in_bounds :: "LoggerContext \<Rightarrow> bool" where
  "ledger_in_bounds c =
     (0 \<le> sint (currBytePos c) \<and> sint (currBytePos c) \<le> sint (maxBufferByteSize c))"

definition buffer_allocated :: "LoggerContext \<Rightarrow> bool" where
  "buffer_allocated c = (length (pTextBuffer c) = nat (sint (maxBufferByteSize c)))"

definition pending :: "LoggerContext \<Rightarrow> string" where
  "pending c = take (unat (scast (currBytePos c) :: size_t)) (pTextBuffer c)"


section \<open>Concrete inputs\<close>

text \<open>
  An allocator that grants every request up to \<^verbatim>\<open>PTRDIFF_MAX\<close> bytes, the largest
  object there can be (glibc refuses anything larger); a time and the stamp it is printed
  as; a world in which no file exists yet and the operating system never fails, one in
  which the log file already holds 260 bytes, and one in which the next
  \<^verbatim>\<open>fopen\<close> fails.
\<close>

definition lp64_malloc :: "nat \<Rightarrow> bool" where
  "lp64_malloc n = (n \<le> 9223372036854775807)"

definition t0 :: tm where
  "t0 = \<lparr>tm_year = 124, tm_mon = 0, tm_mday = 2, tm_hour = 3, tm_min = 4, tm_sec = 5\<rparr>"

definition stamp0 :: string where
  "stamp0 = ''[2024-01-02 | 03:04:05] ''"

definition w0 :: world where
  "w0 = \<lparr>files = (\<lambda>path. []), os_script = [], fwrites = []\<rparr>"

definition w260 :: world where
  "w260 = \<lparr>files = (\<lambda>path. if path = ''./TestLog.txt'' then replicate 260 (CHR ''x'') else []),
            os_script = [], fwrites = []\<rparr>"

definition w_fail :: world where
  "w_fail = w0\<lparr>os_script := [OpenFails]\<rparr>"

text \<open>The end marker of \<^verbatim>\<open>app.c\<close>, and a payload of 34 bytes.\<close>

definition limit_marker :: string where
  "limit_marker = LF # ''[ERR LIMIT]''"

definition msg34 :: string where
  "msg34 = ''0123456789012345678901234567890123''"

text \<open>
  A context with a buffer of 64 bytes that admits errors and warnings only, as
  \<open>TextLogger_Create\<close> returns it; the same after a time stamp, after the error record
  \<open>e\<close>, and after the error record \<open>msg34\<close>, which leaves the world \<open>w_stamp\<close>.
\<close>

definition c_warn :: LoggerContext where
  "c_warn = \<lparr>pTextBuffer = replicate 64 NUL, pFilePath = ''./TestLog.txt'', pErrMsg = ''X'',
      logLevel = 2, maxBufferByteSize = 64, maxFileSize = 2046, currBytePos = 0,
      totalBytesStored = 0, fileLimitIsReached = False\<rparr>"

definition c_stamped :: LoggerContext where
  "c_stamped = c_warn\<lparr>pTextBuffer := stamp0 @ [NUL] @ replicate 39 NUL,
                        currBytePos := 24, totalBytesStored := 24\<rparr>"

definition c_logged :: LoggerContext where
  "c_logged = c_warn\<lparr>pTextBuffer := stamp0 @ ''[E]: e'' @ [LF, NUL] @ replicate 32 NUL,
                       currBytePos := 31, totalBytesStored := 31\<rparr>"

definition c_split :: LoggerContext where
  "c_split = c_warn\<lparr>pTextBuffer := ''[E]: '' @ msg34 @ [LF, NUL] @ replicate 23 NUL,
                      currBytePos := 40, totalBytesStored := 64\<rparr>"

definition w_stamp :: world where
  "w_stamp = w0\<lparr>files := (files w0)(''./TestLog.txt'' := stamp0), fwrites := [stamp0]\<rparr>"

text \<open>A context with a buffer of 20 bytes, as \<open>TextLogger_Create\<close> returns it.\<close>

definition c20 :: LoggerContext where
  "c20 = \<lparr>pTextBuffer = replicate 20 NUL, pFilePath = ''./TestLog.txt'', pErrMsg = ''X'',
      logLevel = 5, maxBufferByteSize = 20, maxFileSize = 2046, currBytePos = 0,
      totalBytesStored = 0, fileLimitIsReached = False\<rparr>"

text \<open>
  A context with a buffer of 256 bytes and a budget of 300 bytes for the file, of which
  the marker \<open>END\<close> reserves four: as created, after one and after two time stamps,
  after the flush that then finds the file too full, and after one more time stamp.
\<close>

definition c256 :: LoggerContext where
  "c256 = \<lparr>pTextBuffer = replicate 256 NUL, pFilePath = ''./TestLog.txt'', pErrMsg = ''END'',
          logLevel = 5, maxBufferByteSize = 256, maxFileSize = 296, currBytePos = 0,
          totalBytesStored = 0, fileLimitIsReached = False\<rparr>"

definition c24 :: LoggerContext where
  "c24 = c256\<lparr>pTextBuffer := stamp0 @ [NUL] @ replicate 231 NUL,
               currBytePos := 24, totalBytesStored := 24\<rparr>"

definition c48 :: LoggerContext where
  "c48 = c256\<lparr>pTextBuffer := stamp0 @ stamp0 @ [NUL] @ replicate 207 NUL,
               currBytePos := 48, totalBytesStored := 48\<rparr>"

definition c_latched :: LoggerContext where
  "c_latched = c48\<lparr>fileLimitIsReached := True, currBytePos := 0\<rparr>"

definition c_relogged :: LoggerContext where
  "c_relogged = c_latched\<lparr>pTextBuffer := stamp0 @ [NUL] @ tl stamp0 @ [NUL] @ replicate 207 NUL,
                           currBytePos := 24, totalBytesStored := 72\<rparr>"

text \<open>
  A context at level warn with a budget of 28 bytes, of which the marker \<open>END\<close>
  leaves 24: as created, after one time stamp, which fills the budget to the brim, and
  after the flush that then writes the marker and leaves the world \<open>w_marked\<close>.
\<close>

definition c_tight :: LoggerContext where
  "c_tight = \<lparr>pTextBuffer = replicate 256 NUL, pFilePath = ''./TestLog.txt'', pErrMsg = ''END'',
          logLevel = 2, maxBufferByteSize = 256, maxFileSize = 24, currBytePos = 0,
          totalBytesStored = 0, fileLimitIsReached = False\<rparr>"

definition c_brim :: LoggerContext where
  "c_brim = c_tight\<lparr>pTextBuffer := stamp0 @ [NUL] @ replicate 231 NUL,
                     currBytePos := 24, totalBytesStored := 24\<rparr>"

definition c_full :: LoggerContext where
  "c_full = c_brim\<lparr>fileLimitIsReached := True\<rparr>"

definition w_marked :: world where
  "w_marked = w0\<lparr>files := (files w0)(''./TestLog.txt'' := ''END''), fwrites := [''END'']\<rparr>"

text \<open>
  A context with the largest budget that create can give, \<open>2^31 - 2\<close> bytes (the budget
  \<open>2^31 - 1\<close> less the byte that an empty marker reserves), whose count of stored bytes
  is negative, as it is once it has passed \<open>2^31 - 1\<close> and wrapped.
\<close>

definition c_wrap :: LoggerContext where
  "c_wrap = \<lparr>pTextBuffer = replicate 64 NUL, pFilePath = ''./TestLog.txt'', pErrMsg = [],
      logLevel = 5, maxBufferByteSize = 64, maxFileSize = 2147483646, currBytePos = 21,
      totalBytesStored = - 2147483635, fileLimitIsReached = False\<rparr>"

text \<open>
  The context \<open>c_warn\<close> after two time stamps, with 48 of its 64 bytes pending; what
  the error record \<open>msg34\<close> makes of it in the world \<open>w_then_fail\<close>, where the
  first \<^verbatim>\<open>fopen\<close> succeeds and the second fails; and the world that this call
  leaves. The world \<open>w_short\<close> is one whose next stream takes every \<^verbatim>\<open>fwrite\<close>
  in full and hands only 10 of the bytes to the file when it is closed.
\<close>

definition c_twice :: LoggerContext where
  "c_twice = c_warn\<lparr>pTextBuffer := stamp0 @ stamp0 @ [NUL] @ replicate 15 NUL,
                      currBytePos := 48, totalBytesStored := 48\<rparr>"

definition c_thrice :: LoggerContext where
  "c_thrice = c_warn\<lparr>pTextBuffer := stamp0 @ [NUL] @ tl stamp0 @ [NUL] @ replicate 15 NUL,
                       currBytePos := 24, totalBytesStored := 72\<rparr>"

definition w_then_fail :: world where
  "w_then_fail = w0\<lparr>os_script := [WritesAll, OpenFails]\<rparr>"

definition w_twice :: world where
  "w_twice = w0\<lparr>files := (files w0)(''./TestLog.txt'' := stamp0 @ stamp0),
                 fwrites := [stamp0 @ stamp0]\<rparr>"



section \<open>Conversions between \<^verbatim>\<open>int\<close> and \<^verbatim>\<open>size_t\<close>\<close>

lemma ucast_wi_down: "(ucast (word_of_int k :: size_t) :: c_int) = word_of_int k"
  by (rule ucast_down_wi) (simp add: is_down)

lemma add_size_t_scast: "add_size_t i (scast r) = i + (r :: c_int)"
proof -
  have "(scast i :: size_t) + scast r = word_of_int (sint i + sint r)"
    by (simp only: scast_eq wi_hom_add)
  then have "add_size_t i (scast r) = word_of_int (sint i + sint r)"
    by (simp only: add_size_t_def ucast_wi_down)
  also have "\<dots> = word_of_int (sint i) + word_of_int (sint r)"
    by (simp only: wi_hom_add)
  finally show ?thesis by simp
qed

lemma sint_of_nat_small: "n \<le> 2147483647 \<Longrightarrow> sint (of_nat n :: c_int) = int n"
  by (simp add: signed_of_nat signed_take_bit_int_eq_self)

lemma sint_of_int_small: "- 2147483648 \<le> k \<Longrightarrow> k \<le> 2147483647 \<Longrightarrow> sint (word_of_int k :: c_int) = k"
  by (simp add: sint_sbintrunc' signed_take_bit_int_eq_self)

lemma unat_wi64: "unat (word_of_int k :: size_t) = nat (k mod 18446744073709551616)"
  by (simp add: unat_eq_nat_uint uint_word_of_int)

lemma unat_scast_nonneg: "0 \<le> sint (i :: c_int) \<Longrightarrow> unat (scast i :: size_t) = nat (sint i)"
proof -
  assume a: "0 \<le> sint i"
  have "sint i < 2147483648" using sint_lt [of i] by simp
  with a have "sint i mod 18446744073709551616 = sint i" by simp
  then show ?thesis by (simp only: scast_eq unat_wi64)
qed

lemma unat_scast_neg: "sint (i :: c_int) < 0 \<Longrightarrow> unat (scast i :: size_t) = nat (18446744073709551616 + sint i)"
proof -
  assume a: "sint i < 0"
  have "- 2147483648 \<le> sint i" using sint_ge [of i] by simp
  with a have "(18446744073709551616 + sint i) mod 18446744073709551616 = 18446744073709551616 + sint i"
    by (intro mod_pos_pos_trivial) linarith+
  moreover have "(18446744073709551616 + sint i) mod 18446744073709551616 = sint i mod 18446744073709551616"
    by (rule mod_add_self1)
  ultimately have "sint i mod 18446744073709551616 = 18446744073709551616 + sint i"
    by (simp only:)
  then show ?thesis by (simp only: scast_eq unat_wi64)
qed

lemma ucast_of_nat_down: "(ucast (of_nat n :: size_t) :: c_int) = of_nat n"
proof -
  have "(of_nat n :: size_t) = word_of_int (int n)" by simp
  then have "(ucast (of_nat n :: size_t) :: c_int) = word_of_int (int n)"
    by (simp only: ucast_wi_down)
  then show ?thesis by simp
qed

lemma effective_budget:
  "(ucast ((scast fs :: size_t) - (strlen err + 1)) :: c_int) = word_of_int (sint fs - (int (length err) + 1))"
proof -
  have "strlen err + 1 = word_of_int (int (length err) + 1)"
    by (simp add: strlen_def)
  then have "(scast fs :: size_t) - (strlen err + 1) = word_of_int (sint fs - (int (length err) + 1))"
    by (simp only: scast_eq wi_hom_sub)
  then show ?thesis by (simp only: ucast_wi_down)
qed

lemma sint_sub_in_range:
  fixes a b :: c_int
  assumes "- 2147483648 \<le> sint a - sint b" "sint a - sint b \<le> 2147483647"
  shows "sint (a - b) = sint a - sint b"
  using assms by (simp add: sint_word_ariths signed_take_bit_int_eq_self)

lemma unat_minus_one: "unat (- 1 :: size_t) = 18446744073709551615"
  by (simp add: unsigned_minus_1_eq_mask mask_eq_exp_minus_1)

lemma sint_add_of_nat:
  fixes p :: c_int
  assumes "0 \<le> sint p" "sint p + int n \<le> 2147483647"
  shows "sint (p + of_nat n) = sint p + int n"
proof -
  have n: "sint (of_nat n :: c_int) = int n" using assms by (intro sint_of_nat_small) linarith
  have "sint (p + of_nat n) = signed_take_bit 31 (sint p + sint (of_nat n :: c_int))"
    by (simp add: sint_word_ariths)
  also have "\<dots> = sint p + int n"
    unfolding n using assms by (intro signed_take_bit_int_eq_self) simp_all
  finally show ?thesis .
qed


section \<open>What a flush can do\<close>

lemma fopen_ab_files: "fopen_ab w path = (r, w1) \<Longrightarrow> files w1 = files w \<and> fwrites w1 = fwrites w"
  by (auto simp: fopen_ab_def split: list.splits os_reply.splits)

lemma fopen_ab_stream:
  "fopen_ab w path = (Some f, w1) \<Longrightarrow>
     f = Stream path None \<or> (\<exists>k. f = Stream path (Some k)) \<or> (\<exists>k. f = Buffered path k [])"
  by (auto simp: fopen_ab_def split: list.splits os_reply.splits)

lemma fclose_fresh: "fopen_ab w path = (Some f, w1) \<Longrightarrow> fclose w1 f = w1"
  by (auto simp: fclose_def dest: fopen_ab_stream)

lemma ftell_end_fresh:
  "fopen_ab w path = (Some f, w1) \<Longrightarrow> ftell_end w1 f = int (length (files w path))"
proof -
  assume o: "fopen_ab w path = (Some f, w1)"
  from fopen_ab_stream [OF o] fopen_ab_files [OF o] show ?thesis
    by (auto simp: ftell_end_def)
qed

lemma flush_err_msg_cases:
  "TextLogger_FlushErrMsgToFileStream w c = (st, w1) \<Longrightarrow>
     st = TEXTLOGGER_ERR_FILE_ERROR \<or> st = TEXTLOGGER_SUCCESS"
  by (auto simp: TextLogger_FlushErrMsgToFileStream_def split: prod.splits option.splits if_splits)

lemma flush_body_frame:
  assumes "flush_body w c = Some (st, c1, w1)"
  shows "pTextBuffer c1 = pTextBuffer c \<and> pFilePath c1 = pFilePath c \<and> pErrMsg c1 = pErrMsg c \<and>
         logLevel c1 = logLevel c \<and> maxBufferByteSize c1 = maxBufferByteSize c \<and>
         maxFileSize c1 = maxFileSize c \<and> totalBytesStored c1 = totalBytesStored c"
  using assms
  by (auto simp: flush_body_def Let_def split: if_splits prod.splits option.splits)

lemma flush_body_pos:
  assumes "flush_body w c = Some (st, c1, w1)"
  shows "currBytePos c1 = currBytePos c \<or> currBytePos c1 = 0"
  using assms
  by (auto simp: flush_body_def Let_def split: if_splits prod.splits option.splits)

lemma flush_body_success:
  assumes "flush_body w c = Some (TEXTLOGGER_SUCCESS, c1, w1)"
  shows "c1 = c\<lparr>currBytePos := 0\<rparr> \<and> \<not> sint (maxFileSize c) \<le> sint (totalBytesStored c)"
  using assms
  by (auto simp: flush_body_def Let_def split: if_splits prod.splits option.splits)

lemma flush_body_file_error:
  assumes "flush_body w c = Some (TEXTLOGGER_ERR_FILE_ERROR, c1, w1)"
  shows "c1 = c \<or>
         (c1 = c\<lparr>fileLimitIsReached := True\<rparr> \<and> \<not> fileLimitIsReached c \<and>
          sint (maxFileSize c) \<le> sint (totalBytesStored c))"
  using assms
  by (auto simp: flush_body_def Let_def split: if_splits prod.splits option.splits)

lemma flush_body_defined:
  assumes "unat (scast (currBytePos c) :: size_t) \<le> length (pTextBuffer c)"
  shows "\<exists>st c1 w1. flush_body w c = Some (st, c1, w1)"
  using assms
  by (auto simp: flush_body_def Let_def split: if_splits prod.splits option.splits)




section \<open>What a write to the buffer can do\<close>

lemma flush_needed_iff:
  "TextLogger_FlushBufferIsNeeded c n \<longleftrightarrow>
     sint (maxFileSize c - totalBytesStored c) \<le> sint n \<or>
     sint (maxBufferByteSize c - currBytePos c) \<le> sint n"
  by (simp add: TextLogger_FlushBufferIsNeeded_def split: if_splits)

lemma room_unat:
  assumes "ledger_in_bounds c"
  shows "sint (maxBufferByteSize c - currBytePos c) = sint (maxBufferByteSize c) - sint (currBytePos c)"
    and "unat (scast (maxBufferByteSize c - currBytePos c) :: size_t) =
           nat (sint (maxBufferByteSize c) - sint (currBytePos c))"
proof -
  have hi: "sint (maxBufferByteSize c) < 2147483648" using sint_lt [of "maxBufferByteSize c"] by simp
  show d: "sint (maxBufferByteSize c - currBytePos c) = sint (maxBufferByteSize c) - sint (currBytePos c)"
    using assms hi unfolding ledger_in_bounds_def by (intro sint_sub_in_range) linarith+
  have "0 \<le> sint (maxBufferByteSize c - currBytePos c)"
    using assms unfolding d ledger_in_bounds_def by linarith
  then show "unat (scast (maxBufferByteSize c - currBytePos c) :: size_t) =
           nat (sint (maxBufferByteSize c) - sint (currBytePos c))"
    by (simp only: unat_scast_nonneg d)
qed

lemma snprintf_ret_small:
  "length s \<le> 2147483647 \<Longrightarrow>
   snprintf buf off n s =
     (if n = 0 then Some (buf, of_nat (length s))
      else if 0 \<le> sint off \<and> nat (sint off) + min (length s) (unat n - 1) + 1 \<le> length buf
      then Some (take (nat (sint off)) buf @ take (min (length s) (unat n - 1)) s @ [NUL]
                   @ drop (nat (sint off) + min (length s) (unat n - 1) + 1) buf, of_nat (length s))
      else None)"
  by (simp add: snprintf_def Let_def)

lemma write_to_buffer_ok:
  assumes alloc: "buffer_allocated c" and bnd: "ledger_in_bounds c"
    and len: "int (length s) \<le> sint (maxBufferByteSize c)"
    and room: "\<not> TextLogger_FlushBufferIsNeeded c (of_nat (length s)) \<or> currBytePos c = 0"
  shows "\<exists>buf. write_to_buffer c s =
           Some (c\<lparr>pTextBuffer := buf,
                   currBytePos := currBytePos c + of_nat (length s),
                   totalBytesStored := totalBytesStored c + of_nat (length s)\<rparr>) \<and>
           length buf = length (pTextBuffer c) \<and>
           sint (currBytePos c + of_nat (length s)) = sint (currBytePos c) + int (length s) \<and>
           sint (currBytePos c) + int (length s) \<le> sint (maxBufferByteSize c) \<and>
           (int (length s) < sint (maxBufferByteSize c) - sint (currBytePos c) \<longrightarrow>
              take (nat (sint (currBytePos c)) + length s) buf =
                take (nat (sint (currBytePos c))) (pTextBuffer c) @ s)"
proof -
  let ?cap = "sint (maxBufferByteSize c)" and ?pos = "sint (currBytePos c)"
  have cap_hi: "?cap \<le> 2147483647" using sint_lt [of "maxBufferByteSize c"] by simp
  have pos0: "0 \<le> ?pos" and pos_cap: "?pos \<le> ?cap"
    using bnd by (simp_all add: ledger_in_bounds_def)
  have small: "length s \<le> 2147483647" using len cap_hi by linarith
  have slen: "sint (of_nat (length s) :: c_int) = int (length s)"
    using small by (rule sint_of_nat_small)
  have fits: "?pos + int (length s) \<le> ?cap"
  proof (cases "currBytePos c = 0")
    case True
    then show ?thesis using len by simp
  next
    case False
    with room have "\<not> TextLogger_FlushBufferIsNeeded c (of_nat (length s))" by simp
    then have "\<not> sint (maxBufferByteSize c - currBytePos c) \<le> sint (of_nat (length s) :: c_int)"
      by (simp add: flush_needed_iff)
    then show ?thesis unfolding room_unat(1) [OF bnd] slen by linarith
  qed
  have sum: "sint (currBytePos c + of_nat (length s)) = ?pos + int (length s)"
    using pos0 fits cap_hi by (intro sint_add_of_nat) linarith+
  define n where "n = (scast (maxBufferByteSize c - currBytePos c) :: size_t)"
  have un: "unat n = nat (?cap - ?pos)" unfolding n_def by (rule room_unat(2) [OF bnd])
  have n0: "n = 0 \<longleftrightarrow> ?cap = ?pos"
  proof -
    have "n = 0 \<longleftrightarrow> unat n = 0" by (simp add: unsigned_eq_0_iff)
    then show ?thesis using un pos_cap by simp
  qed
  define k where "k = min (length s) (unat n - 1)"
  have blen: "length (pTextBuffer c) = nat ?cap" using alloc by (simp add: buffer_allocated_def)
  have ret: "scast (of_nat (length s) :: c_int) = (scast (of_nat (length s) :: c_int) :: size_t)" ..
  show ?thesis
  proof (cases "n = 0")
    case True
    then have w: "write_to_buffer c s =
           Some (c\<lparr>pTextBuffer := pTextBuffer c,
                   currBytePos := currBytePos c + of_nat (length s),
                   totalBytesStored := totalBytesStored c + of_nat (length s)\<rparr>)"
      using small
      by (simp add: write_to_buffer_def snprintf_ret_small add_size_t_scast flip: n_def)
    from True n0 fits have "length s = 0" by simp
    with w sum fits show ?thesis by (intro exI [of _ "pTextBuffer c"]) simp
  next
    case False
    with n0 pos_cap have lt: "?pos < ?cap" by simp
    have k_le: "nat ?pos + k + 1 \<le> length (pTextBuffer c)"
      unfolding blen k_def un using pos0 lt by simp
    let ?buf = "take (nat ?pos) (pTextBuffer c) @ take k s @ [NUL]
                   @ drop (nat ?pos + k + 1) (pTextBuffer c)"
    have w: "write_to_buffer c s =
           Some (c\<lparr>pTextBuffer := ?buf,
                   currBytePos := currBytePos c + of_nat (length s),
                   totalBytesStored := totalBytesStored c + of_nat (length s)\<rparr>)"
      using small False pos0 k_le
      by (simp add: write_to_buffer_def snprintf_ret_small add_size_t_scast k_def flip: n_def)
    have kl: "k \<le> length s" by (simp add: k_def)
    have l: "length ?buf = length (pTextBuffer c)" using k_le kl by simp
    have content: "take (nat ?pos + length s) ?buf = take (nat ?pos) (pTextBuffer c) @ s"
      if "int (length s) < ?cap - ?pos"
    proof -
      from that have "k = length s" unfolding k_def un by simp
      then show ?thesis using k_le by simp
    qed
    from w l sum fits content show ?thesis by (intro exI [of _ ?buf]) simp
  qed
qed

lemma write_to_buffer_counters:
  assumes "write_to_buffer c s = Some c2" and "length s \<le> 2147483647"
  shows "\<exists>buf. c2 = c\<lparr>pTextBuffer := buf,
                       currBytePos := currBytePos c + of_nat (length s),
                       totalBytesStored := totalBytesStored c + of_nat (length s)\<rparr>"
  using assms
  by (auto simp: write_to_buffer_def snprintf_ret_small add_size_t_scast
           split: option.splits if_splits)

lemma in_bounds_unat:
  assumes "ledger_in_bounds c" "buffer_allocated c"
  shows "unat (scast (currBytePos c) :: size_t) = nat (sint (currBytePos c))"
    and "unat (scast (currBytePos c) :: size_t) \<le> length (pTextBuffer c)"
proof -
  show u: "unat (scast (currBytePos c) :: size_t) = nat (sint (currBytePos c))"
    using assms(1) by (simp add: ledger_in_bounds_def unat_scast_nonneg)
  show "unat (scast (currBytePos c) :: size_t) \<le> length (pTextBuffer c)"
    unfolding u using assms by (simp add: ledger_in_bounds_def buffer_allocated_def nat_mono)
qed

lemma flush_body_keeps_bounds:
  assumes "flush_body w c = Some (st, c1, w1)" "ledger_in_bounds c" "buffer_allocated c"
  shows "ledger_in_bounds c1 \<and> buffer_allocated c1"
proof -
  from flush_body_frame [OF assms(1)] flush_body_pos [OF assms(1)] assms(2,3)
  show ?thesis by (auto simp: ledger_in_bounds_def buffer_allocated_def)
qed


section \<open>Time stamps and records, step by step\<close>

lemma timestamp_body_eq:
  "timestamp_body t w c = buffered_write w c (format_time t) (ucast (strlen (format_time t)))"
  by (simp add: timestamp_body_def buffered_write_def Let_def)

lemma write_to_buffer_eq:
  "TextLogger_WriteToBuffer t w c msg n level =
     (case timestamp_body t w c of
        None \<Rightarrow> None
      | Some (status, c1, w1) \<Rightarrow>
          if status \<noteq> TEXTLOGGER_SUCCESS then Some (status, c1, w1)
          else buffered_write w1 c1 (log_msg_tag level @ msg @ [LF]) n)"
  by (simp add: TextLogger_WriteToBuffer_def buffered_write_def Let_def split: option.split)

lemma length_format_time: "length (format_time t) \<le> 127"
  by (simp add: format_time_def MAX_STR_SIZE_def)

lemma ts_len_word: "(ucast (strlen (format_time t)) :: c_int) = of_nat (length (format_time t))"
  by (simp only: strlen_def ucast_of_nat_down)

lemma length_log_msg_tag: "length (log_msg_tag level) = 5"
  by (cases level) simp_all

lemma line_len_word:
  "(ucast (strlen msg + LOG_EXTRA_STR_LENGTH) :: c_int) =
     of_nat (length (log_msg_tag level @ msg @ [LF]))"
proof -
  have "strlen msg + LOG_EXTRA_STR_LENGTH = (of_nat (length msg + 6) :: size_t)"
    by (simp add: strlen_def LOG_EXTRA_STR_LENGTH_def)
  then have "(ucast (strlen msg + LOG_EXTRA_STR_LENGTH) :: c_int) = of_nat (length msg + 6)"
    by (simp only: ucast_of_nat_down)
  then show ?thesis by (simp add: length_log_msg_tag)
qed

lemma buffered_write_cases:
  assumes "buffered_write w c s n = Some (st, c2, w2)"
  shows "(st \<noteq> TEXTLOGGER_SUCCESS \<and> TextLogger_FlushBufferIsNeeded c n \<and>
            flush_body w c = Some (st, c2, w2)) \<or>
         (st = TEXTLOGGER_SUCCESS \<and> \<not> TextLogger_FlushBufferIsNeeded c n \<and> w2 = w \<and>
            write_to_buffer c s = Some c2) \<or>
         (st = TEXTLOGGER_SUCCESS \<and> TextLogger_FlushBufferIsNeeded c n \<and>
            flush_body w c = Some (TEXTLOGGER_SUCCESS, c\<lparr>currBytePos := 0\<rparr>, w2) \<and>
            write_to_buffer (c\<lparr>currBytePos := 0\<rparr>) s = Some c2)"
proof (cases "TextLogger_FlushBufferIsNeeded c n")
  case False
  with assms show ?thesis
    by (auto simp: buffered_write_def split: option.splits)
next
  case True
  with assms obtain st1 c1 w1 where f: "flush_body w c = Some (st1, c1, w1)"
    by (auto simp: buffered_write_def split: option.splits)
  show ?thesis
  proof (cases "st1 = TEXTLOGGER_SUCCESS")
    case False
    with assms True f show ?thesis by (simp add: buffered_write_def)
  next
    case s: True
    with f have "c1 = c\<lparr>currBytePos := 0\<rparr>" by (simp add: flush_body_success)
    with assms True f s show ?thesis
      by (auto simp: buffered_write_def split: option.splits)
  qed
qed

lemma buffered_write_ok:
  assumes alloc: "buffer_allocated c" and bnd: "ledger_in_bounds c"
    and len: "int (length s) \<le> sint (maxBufferByteSize c)"
    and n: "n = of_nat (length s)"
  shows "\<exists>st c2 w2. buffered_write w c s n = Some (st, c2, w2) \<and>
           ledger_in_bounds c2 \<and> buffer_allocated c2 \<and>
           maxBufferByteSize c2 = maxBufferByteSize c"
proof (cases "TextLogger_FlushBufferIsNeeded c n")
  case False
  with write_to_buffer_ok [OF alloc bnd len] n obtain buf where
    w: "write_to_buffer c s =
           Some (c\<lparr>pTextBuffer := buf,
                   currBytePos := currBytePos c + of_nat (length s),
                   totalBytesStored := totalBytesStored c + of_nat (length s)\<rparr>)"
    and l: "length buf = length (pTextBuffer c)"
    and s: "sint (currBytePos c + of_nat (length s)) = sint (currBytePos c) + int (length s)"
    and f: "sint (currBytePos c) + int (length s) \<le> sint (maxBufferByteSize c)"
    by blast
  from bnd have "0 \<le> sint (currBytePos c)" by (simp add: ledger_in_bounds_def)
  with False w l s f alloc show ?thesis
    by (simp add: buffered_write_def ledger_in_bounds_def buffer_allocated_def)
next
  case True
  from flush_body_defined [OF in_bounds_unat(2) [OF bnd alloc]]
  obtain st1 c1 w1 where fl: "flush_body w c = Some (st1, c1, w1)" by blast
  note k = flush_body_keeps_bounds [OF fl bnd alloc]
  note fr = flush_body_frame [OF fl]
  show ?thesis
  proof (cases "st1 = TEXTLOGGER_SUCCESS")
    case False
    with True fl k fr show ?thesis by (simp add: buffered_write_def)
  next
    case s1: True
    with fl have c1: "c1 = c\<lparr>currBytePos := 0\<rparr>" by (simp add: flush_body_success)
    have len1: "int (length s) \<le> sint (maxBufferByteSize c1)" using len fr by simp
    have "currBytePos c1 = 0" using c1 by simp
    with write_to_buffer_ok [OF conjunct2 [OF k] conjunct1 [OF k] len1] obtain buf where
      w: "write_to_buffer c1 s =
           Some (c1\<lparr>pTextBuffer := buf,
                   currBytePos := currBytePos c1 + of_nat (length s),
                   totalBytesStored := totalBytesStored c1 + of_nat (length s)\<rparr>)"
      and l: "length buf = length (pTextBuffer c1)"
      and s: "sint (currBytePos c1 + of_nat (length s)) = sint (currBytePos c1) + int (length s)"
      and f: "sint (currBytePos c1) + int (length s) \<le> sint (maxBufferByteSize c1)"
      by blast
    from k have "0 \<le> sint (currBytePos c1)" by (simp add: ledger_in_bounds_def)
    with True fl s1 w l s f k fr show ?thesis
      by (simp add: buffered_write_def ledger_in_bounds_def buffer_allocated_def)
  qed
qed

lemma severity_call_eq: "severity_call level = log_call level"
  by (cases level)
    (simp_all add: TextLogger_LogError_def TextLogger_LogWarn_def TextLogger_LogInfo_def
       TextLogger_LogDebug_def TextLogger_LogVerbose_def)

lemma severity_call_admitted:
  "sint (level_value level) \<le> sint (logLevel c) \<Longrightarrow>
   severity_call level t w (Some c) (Some msg) =
     returning (TextLogger_WriteToBuffer t w c msg
                  (ucast (strlen msg + LOG_EXTRA_STR_LENGTH)) level)"
  by (simp add: severity_call_eq log_call_def)

lemma severity_call_dropped:
  "\<not> sint (level_value level) \<le> sint (logLevel c) \<Longrightarrow>
   severity_call level t w (Some c) (Some msg) = Some (TEXTLOGGER_SUCCESS, Some c, w)"
  by (simp add: severity_call_eq log_call_def)

lemma timestamp_body_ok:
  assumes "buffer_allocated c" and "ledger_in_bounds c"
    and "int (length (format_time t)) \<le> sint (maxBufferByteSize c)"
  shows "\<exists>st c2 w2. timestamp_body t w c = Some (st, c2, w2) \<and>
           ledger_in_bounds c2 \<and> buffer_allocated c2 \<and>
           maxBufferByteSize c2 = maxBufferByteSize c"
  unfolding timestamp_body_eq
  using assms by (intro buffered_write_ok) (simp_all add: ts_len_word)

lemma write_to_buffer_fn_ok:
  assumes alloc: "buffer_allocated c" and bnd: "ledger_in_bounds c"
    and ts: "int (length (format_time t)) \<le> sint (maxBufferByteSize c)"
    and ln: "int (length msg) + 6 \<le> sint (maxBufferByteSize c)"
  shows "\<exists>st c2 w2. TextLogger_WriteToBuffer t w c msg
                        (ucast (strlen msg + LOG_EXTRA_STR_LENGTH)) level = Some (st, c2, w2) \<and>
           ledger_in_bounds c2 \<and> buffer_allocated c2"
proof -
  from timestamp_body_ok [OF alloc bnd ts] obtain st1 c1 w1 where
    t1: "timestamp_body t w c = Some (st1, c1, w1)" and b1: "ledger_in_bounds c1"
    and a1: "buffer_allocated c1" and m1: "maxBufferByteSize c1 = maxBufferByteSize c"
    by blast
  show ?thesis
  proof (cases "st1 = TEXTLOGGER_SUCCESS")
    case False
    with t1 b1 a1 show ?thesis by (simp add: write_to_buffer_eq)
  next
    case True
    have "int (length (log_msg_tag level @ msg @ [LF])) \<le> sint (maxBufferByteSize c1)"
      using ln m1 by (simp add: length_log_msg_tag)
    from buffered_write_ok [OF a1 b1 this line_len_word, of w1]
    obtain st2 c2 w2 where
      "buffered_write w1 c1 (log_msg_tag level @ msg @ [LF])
         (ucast (strlen msg + LOG_EXTRA_STR_LENGTH)) = Some (st2, c2, w2)"
      "ledger_in_bounds c2" "buffer_allocated c2"
      by blast
    with t1 True show ?thesis by (simp add: write_to_buffer_eq)
  qed
qed

lemma severity_call_ok:
  assumes alloc: "buffer_allocated c" and bnd: "ledger_in_bounds c"
    and ts: "int (length (format_time t)) \<le> sint (maxBufferByteSize c)"
    and ln: "int (length msg) + 6 \<le> sint (maxBufferByteSize c)"
  shows "\<exists>st c2 w2. severity_call level t w (Some c) (Some msg) = Some (st, Some c2, w2) \<and>
           ledger_in_bounds c2 \<and> buffer_allocated c2"
proof (cases "sint (level_value level) \<le> sint (logLevel c)")
  case False
  with alloc bnd show ?thesis by (simp add: severity_call_dropped)
next
  case True
  from write_to_buffer_fn_ok [OF alloc bnd ts ln, of w level] obtain st c2 w2 where
    "TextLogger_WriteToBuffer t w c msg (ucast (strlen msg + LOG_EXTRA_STR_LENGTH)) level =
       Some (st, c2, w2)" "ledger_in_bounds c2" "buffer_allocated c2"
    by blast
  with True show ?thesis by (simp add: severity_call_admitted returning_def)
qed

lemma exhausted_needs_flush:
  assumes "sint (maxFileSize c) \<le> sint (totalBytesStored c)" "0 < sint (maxFileSize c)"
    and "0 \<le> sint n"
  shows "TextLogger_FlushBufferIsNeeded c n"
proof -
  have "sint (totalBytesStored c) < 2147483648" using sint_lt [of "totalBytesStored c"] by simp
  with assms have "sint (maxFileSize c - totalBytesStored c) =
                     sint (maxFileSize c) - sint (totalBytesStored c)"
    by (intro sint_sub_in_range) linarith+
  with assms show ?thesis by (simp add: flush_needed_iff)
qed

lemma sint_ts_len: "sint (ucast (strlen (format_time t)) :: c_int) = int (length (format_time t))"
  unfolding ts_len_word using length_format_time [of t] by (intro sint_of_nat_small) linarith

lemma buffered_write_total:
  assumes "buffered_write w c s n = Some (st, c2, w2)" and "length s \<le> 2147483647"
  shows "totalBytesStored c2 =
           (if st = TEXTLOGGER_SUCCESS then totalBytesStored c + of_nat (length s)
            else totalBytesStored c)"
  using buffered_write_cases [OF assms(1)]
proof (elim disjE conjE)
  assume "st \<noteq> TEXTLOGGER_SUCCESS" "flush_body w c = Some (st, c2, w2)"
  then show ?thesis using flush_body_frame [of w c st c2 w2] by simp
next
  assume "st = TEXTLOGGER_SUCCESS" "write_to_buffer c s = Some c2"
  then show ?thesis using write_to_buffer_counters [OF _ assms(2), of c c2] by auto
next
  assume "st = TEXTLOGGER_SUCCESS" "write_to_buffer (c\<lparr>currBytePos := 0\<rparr>) s = Some c2"
  then show ?thesis
    using write_to_buffer_counters [OF _ assms(2), of "c\<lparr>currBytePos := 0\<rparr>" c2] by auto
qed

lemma timestamp_body_total:
  assumes "timestamp_body t w c = Some (st, c1, w1)"
  shows "totalBytesStored c1 =
           (if st = TEXTLOGGER_SUCCESS then totalBytesStored c + of_nat (length (format_time t))
            else totalBytesStored c)"
proof -
  have "length (format_time t) \<le> 2147483647" using length_format_time [of t] by linarith
  with assms show ?thesis unfolding timestamp_body_eq by (rule buffered_write_total)
qed

lemma write_to_buffer_fn_total:
  assumes "TextLogger_WriteToBuffer t w c msg n level = Some (st, c2, w2)"
    and "int (length msg) + 6 \<le> 2147483647"
  shows "if st = TEXTLOGGER_SUCCESS
         then totalBytesStored c2 =
                totalBytesStored c + of_nat (length (format_time t)) + of_nat (length msg + 6)
         else totalBytesStored c2 = totalBytesStored c \<or>
              totalBytesStored c2 = totalBytesStored c + of_nat (length (format_time t))"
proof -
  from assms(1) obtain st1 c1 w1 where t1: "timestamp_body t w c = Some (st1, c1, w1)"
    by (auto simp: write_to_buffer_eq split: option.splits)
  note tt = timestamp_body_total [OF t1]
  show ?thesis
  proof (cases "st1 = TEXTLOGGER_SUCCESS")
    case False
    with assms(1) t1 tt show ?thesis by (auto simp: write_to_buffer_eq)
  next
    case True
    with assms(1) t1 have b: "buffered_write w1 c1 (log_msg_tag level @ msg @ [LF]) n =
                                Some (st, c2, w2)"
      by (simp add: write_to_buffer_eq)
    have "length (log_msg_tag level @ msg @ [LF]) \<le> 2147483647"
      using assms(2) by (simp add: length_log_msg_tag)
    from buffered_write_total [OF b this] tt True show ?thesis
      by (simp add: length_log_msg_tag)
  qed
qed

lemma timestamp_body_file_error:
  assumes "timestamp_body t w c = Some (TEXTLOGGER_ERR_FILE_ERROR, c1, w1)"
  shows "flush_body w c = Some (TEXTLOGGER_ERR_FILE_ERROR, c1, w1)"
  using buffered_write_cases [OF assms [unfolded timestamp_body_eq]] by simp




lemma exhausted_step:
  assumes "fileLimitIsReached c" and "sint (maxFileSize c) \<le> sint (totalBytesStored c)"
    and "0 < sint (maxFileSize c)"
  shows "TextLogger_FlushTextToFileStream w (Some c) =
           Some (TEXTLOGGER_ERR_INSUFFICIENT_FILE_SPACE, Some c, w)"
    and "TextLogger_LogTimeStamp t w (Some c) =
           Some (TEXTLOGGER_ERR_INSUFFICIENT_FILE_SPACE, Some c, w)"
    and "severity_call level t w (Some c) (Some msg) =
            Some (if sint (level_value level) \<le> sint (logLevel c)
                  then TEXTLOGGER_ERR_INSUFFICIENT_FILE_SPACE else TEXTLOGGER_SUCCESS,
                  Some c, w)"
proof -
  have fl: "flush_body w c = Some (TEXTLOGGER_ERR_INSUFFICIENT_FILE_SPACE, c, w)"
    using assms(1,2) by (simp add: flush_body_def)
  have "TextLogger_FlushBufferIsNeeded c (ucast (strlen (format_time t)))"
    using assms(2,3) by (intro exhausted_needs_flush) (simp_all add: sint_ts_len)
  with fl have ts: "timestamp_body t w c = Some (TEXTLOGGER_ERR_INSUFFICIENT_FILE_SPACE, c, w)"
    by (simp add: timestamp_body_def)
  show "severity_call level t w (Some c) (Some msg) =
            Some (if sint (level_value level) \<le> sint (logLevel c)
                  then TEXTLOGGER_ERR_INSUFFICIENT_FILE_SPACE else TEXTLOGGER_SUCCESS,
                  Some c, w)"
    using ts by (simp add: severity_call_eq log_call_def write_to_buffer_eq returning_def)
  show "TextLogger_FlushTextToFileStream w (Some c) =
           Some (TEXTLOGGER_ERR_INSUFFICIENT_FILE_SPACE, Some c, w)"
    using fl by (simp add: TextLogger_FlushTextToFileStream_def returning_def)
  show "TextLogger_LogTimeStamp t w (Some c) =
           Some (TEXTLOGGER_ERR_INSUFFICIENT_FILE_SPACE, Some c, w)"
    using ts by (simp add: TextLogger_LogTimeStamp_def returning_def)
qed

lemma exhausted_perform:
  assumes "fileLimitIsReached c" and "sint (maxFileSize c) \<le> sint (totalBytesStored c)"
    and "0 < sint (maxFileSize c)"
  shows "perform k w (Some c) = Some (refusal c k, Some c, w)"
  by (cases k) (simp_all add: exhausted_step [OF assms])

section \<open>What a time stamp step leaves, and texts buffered in a row\<close>


lemma timestamp_body_success:
  assumes "timestamp_body t w c = Some (TEXTLOGGER_SUCCESS, c1, w1)"
  shows "\<exists>p0 buf.
           (p0 = currBytePos c \<and> w1 = w \<and>
              \<not> TextLogger_FlushBufferIsNeeded c (ucast (strlen (format_time t))) \<or>
            p0 = 0 \<and> TextLogger_FlushBufferIsNeeded c (ucast (strlen (format_time t))) \<and>
              flush_body w c = Some (TEXTLOGGER_SUCCESS, c\<lparr>currBytePos := 0\<rparr>, w1)) \<and>
           snprintf (pTextBuffer c) p0 (scast (maxBufferByteSize c - p0)) (format_time t) =
             Some (buf, of_nat (length (format_time t))) \<and>
           c1 = c\<lparr>pTextBuffer := buf,
                   currBytePos := p0 + of_nat (length (format_time t)),
                   totalBytesStored := totalBytesStored c + of_nat (length (format_time t))\<rparr>"
proof -
  let ?s = "format_time t"
  have small: "length ?s \<le> 2147483647" using length_format_time [of t] by linarith
  have wb: "\<exists>buf. snprintf (pTextBuffer cb) (currBytePos cb)
                    (scast (maxBufferByteSize cb - currBytePos cb)) ?s =
                  Some (buf, of_nat (length ?s)) \<and>
                c1 = cb\<lparr>pTextBuffer := buf,
                        currBytePos := currBytePos cb + of_nat (length ?s),
                        totalBytesStored := totalBytesStored cb + of_nat (length ?s)\<rparr>"
    if "write_to_buffer cb ?s = Some c1" for cb
    using that small
    by (auto simp: write_to_buffer_def snprintf_ret_small add_size_t_scast
             split: option.splits if_splits)
  from buffered_write_cases [OF assms [unfolded timestamp_body_eq]]
  show ?thesis
  proof (elim disjE conjE)
    assume "TEXTLOGGER_SUCCESS \<noteq> TEXTLOGGER_SUCCESS"
    then show ?thesis by simp
  next
    assume n: "\<not> TextLogger_FlushBufferIsNeeded c (ucast (strlen ?s))" and "w1 = w"
      and "write_to_buffer c ?s = Some c1"
    with wb [of c] show ?thesis by auto
  next
    assume n: "TextLogger_FlushBufferIsNeeded c (ucast (strlen ?s))"
      and f: "flush_body w c = Some (TEXTLOGGER_SUCCESS, c\<lparr>currBytePos := 0\<rparr>, w1)"
      and "write_to_buffer (c\<lparr>currBytePos := 0\<rparr>) ?s = Some c1"
    with wb [of "c\<lparr>currBytePos := 0\<rparr>"] show ?thesis by auto
  qed
qed







section \<open>Evaluation on the concrete inputs\<close>

lemma format_time_t0: "format_time t0 = ''[2024-01-02 | 03:04:05] ''"
  by (simp add: format_time_def t0_def fmt_0d_def dec.simps MAX_STR_SIZE_def)

lemmas eval_defs =
  TextLogger_LogTimeStamp_def timestamp_body_def returning_def format_time_t0
  TextLogger_FlushBufferIsNeeded_def flush_body_def
  write_to_buffer_def snprintf_def add_size_t_def strlen_def TextLogger_WriteToBuffer_def
  log_call_def TextLogger_FlushTextToFileStream_def TextLogger_FlushErrMsgToFileStream_def
  fopen_ab_def fwrite_def fclose_def ftell_end_def LOG_EXTRA_STR_LENGTH_def
  TextLogger_Destroy_def
  TextLogger_LogError_def TextLogger_LogWarn_def TextLogger_LogInfo_def
  TextLogger_LogDebug_def TextLogger_LogVerbose_def

lemmas sample_defs =
  c_warn_def c_stamped_def c_logged_def c_split_def c_tight_def c_brim_def c256_def c24_def
  c48_def c_latched_def c_relogged_def c20_def c_full_def w0_def w260_def w_stamp_def
  w_fail_def w_marked_def stamp0_def msg34_def NUL_def LF_def

lemmas create_defs =
  TextLogger_Create_def strlen_def sizeof_LoggerContext_def lp64_malloc_def

lemma eval_create_warn:
  "TextLogger_Create lp64_malloc (Some ''./TestLog.txt'') (Some ''X'') 2 64 2048 = Some c_warn"
  by (simp add: create_defs c_warn_def)

lemma eval_create_20:
  "TextLogger_Create lp64_malloc (Some ''./TestLog.txt'') (Some ''X'') 5 20 2048 = Some c20"
  by (simp add: create_defs c20_def)

lemma eval_create_256:
  "TextLogger_Create lp64_malloc (Some ''./TestLog.txt'') (Some ''END'') 5 256 300 = Some c256"
  by (simp add: create_defs c256_def)

lemma eval_create_tight:
  "TextLogger_Create lp64_malloc (Some ''./TestLog.txt'') (Some ''END'') 2 256 28 = Some c_tight"
  by (simp add: create_defs c_tight_def)

lemma eval_stamp_20:
  "TextLogger_LogTimeStamp t0 w0 (Some c20) =
     Some (TEXTLOGGER_SUCCESS,
           Some (c20\<lparr>pTextBuffer := ''[2024-01-02 | 03:04'' @ [NUL],
                      currBytePos := 24, totalBytesStored := 24\<rparr>), w0)"
  by (simp add: eval_defs sample_defs)

lemma eval_flush_20:
  "TextLogger_FlushTextToFileStream w0
     (Some (c20\<lparr>pTextBuffer := ''[2024-01-02 | 03:04'' @ [NUL],
                 currBytePos := 24, totalBytesStored := 24\<rparr>)) = None"
  by (simp add: eval_defs sample_defs)

lemma eval_stamp_256:
  "TextLogger_LogTimeStamp t0 w260 (Some c256) = Some (TEXTLOGGER_SUCCESS, Some c24, w260)"
  by (simp add: eval_defs sample_defs)

lemma eval_stamp_24:
  "TextLogger_LogTimeStamp t0 w260 (Some c24) = Some (TEXTLOGGER_SUCCESS, Some c48, w260)"
  by (simp add: eval_defs sample_defs)

lemma eval_overshoot:
  "TextLogger_FlushTextToFileStream w260 (Some c48) =
     Some (TEXTLOGGER_ERR_INSUFFICIENT_FILE_SPACE, Some c_latched, w260)"
  by (simp add: eval_defs sample_defs)

lemma eval_flush_latched:
  "TextLogger_FlushTextToFileStream w260 (Some c_latched) =
     Some (TEXTLOGGER_SUCCESS, Some c_latched, w260)"
  by (simp add: eval_defs sample_defs)

lemma eval_stamp_latched:
  "TextLogger_LogTimeStamp t0 w260 (Some c_latched) =
     Some (TEXTLOGGER_SUCCESS, Some c_relogged, w260)"
  by (simp add: eval_defs sample_defs)

lemma eval_flush_relogged:
  "TextLogger_FlushTextToFileStream w260 (Some c_relogged) =
     Some (TEXTLOGGER_SUCCESS, Some (c_relogged\<lparr>currBytePos := 0\<rparr>),
           w260\<lparr>files := (files w260)(''./TestLog.txt'' := replicate 260 (CHR ''x'') @ stamp0),
                fwrites := [stamp0]\<rparr>)"
  by (simp add: eval_defs sample_defs)

lemma eval_marker_written:
  "TextLogger_FlushTextToFileStream w0 (Some c_brim) =
     Some (TEXTLOGGER_ERR_INSUFFICIENT_FILE_SPACE, Some c_full, w_marked)"
  by (simp add: eval_defs sample_defs)

lemma eval_info_dropped:
  "TextLogger_LogInfo t0 w_marked (Some c_full) (Some ''e'') =
     Some (TEXTLOGGER_SUCCESS, Some c_full, w_marked)"
  by (simp add: eval_defs sample_defs)

lemma eval_stamp_tight:
  "TextLogger_LogTimeStamp t0 w0 (Some c_tight) = Some (TEXTLOGGER_SUCCESS, Some c_brim, w0)"
  by (simp add: eval_defs sample_defs)

lemma eval_stamp: "TextLogger_LogTimeStamp t0 w0 (Some c_warn) = Some (TEXTLOGGER_SUCCESS, Some c_stamped, w0)"
  by (simp add: eval_defs sample_defs)

lemma eval_log: "TextLogger_LogError t0 w0 (Some c_warn) (Some ''e'') = Some (TEXTLOGGER_SUCCESS, Some c_logged, w0)"
  by (simp add: eval_defs sample_defs)



lemma eval_marker_fail: "TextLogger_FlushTextToFileStream w_fail (Some c_brim) =
     Some (TEXTLOGGER_ERR_FILE_ERROR, Some (c_brim\<lparr>fileLimitIsReached := True\<rparr>), w0)"
  by (simp add: eval_defs sample_defs)

lemma eval_stamp_fail: "TextLogger_LogTimeStamp t0 w_fail (Some c_brim) =
     Some (TEXTLOGGER_ERR_FILE_ERROR, Some (c_brim\<lparr>fileLimitIsReached := True\<rparr>), w0)"
  by (simp add: eval_defs sample_defs)

lemma eval_log_fail: "TextLogger_LogError t0 w_fail (Some c_warn) (Some msg34) =
     Some (TEXTLOGGER_ERR_FILE_ERROR, Some c_stamped, w0)"
  by (simp add: eval_defs sample_defs)


lemma eval_flush_empty: "TextLogger_FlushTextToFileStream w0 (Some c_warn) = Some (TEXTLOGGER_SUCCESS, Some c_warn, w0)"
  by (simp add: eval_defs sample_defs)

lemma eval_stamp_twice:
  "TextLogger_LogTimeStamp t0 w0 (Some c_stamped) = Some (TEXTLOGGER_SUCCESS, Some c_twice, w0)"
  by (simp add: eval_defs sample_defs c_twice_def)

lemma eval_log_then_fail:
  "TextLogger_LogError t0 w_then_fail (Some c_twice) (Some msg34) =
     Some (TEXTLOGGER_ERR_FILE_ERROR, Some c_thrice, w_twice)"
  by (simp add: eval_defs sample_defs c_twice_def c_thrice_def w_then_fail_def w_twice_def Let_def)


section \<open>What create returns\<close>

lemma create_result_general:
  assumes lo: "- 2147483648 \<le> sint fileSize - (int (length err) + 1)"
  shows "TextLogger_Create malloc (Some path) (Some err) level bufferSize fileSize =
      (if sint fileSize - (int (length err) + 1) \<le> 0 then None
       else if malloc sizeof_LoggerContext \<and> malloc (unat (strlen path + 1)) \<and>
               malloc (unat (scast bufferSize :: size_t)) \<and> malloc (unat (strlen err + 1))
       then Some \<lparr>pTextBuffer = replicate (unat (scast bufferSize :: size_t)) NUL,
                  pFilePath = path, pErrMsg = err, logLevel = level,
                  maxBufferByteSize = bufferSize,
                  maxFileSize = fileSize - (of_nat (length err) + 1),
                  currBytePos = 0, totalBytesStored = 0, fileLimitIsReached = False\<rparr>
       else None)"
proof -
  have "sint fileSize < 2147483648" using sint_lt [of fileSize] by simp
  then have hi: "sint fileSize - (int (length err) + 1) \<le> 2147483647" by linarith
  define e :: c_int where "e = ucast ((scast fileSize :: size_t) - (strlen err + 1))"
  have e_wi: "e = word_of_int (sint fileSize - (int (length err) + 1))"
    by (simp only: e_def effective_budget)
  have e_sint: "sint e = sint fileSize - (int (length err) + 1)"
    using lo hi by (simp only: e_wi sint_of_int_small)
  have e_norm: "e = fileSize - (of_nat (length err) + 1)"
    using e_wi by simp
  have step: "TextLogger_Create malloc (Some path) (Some err) level bufferSize fileSize =
      (if \<not> malloc sizeof_LoggerContext then None
       else if sint e \<le> 0 then None
       else if \<not> malloc (unat (strlen path + 1)) then None
       else if \<not> malloc (unat (scast bufferSize :: size_t)) then None
       else if \<not> malloc (unat (strlen err + 1)) then None
       else Some \<lparr>pTextBuffer = replicate (unat (scast bufferSize :: size_t)) NUL,
                  pFilePath = path, pErrMsg = err, logLevel = level,
                  maxBufferByteSize = bufferSize, maxFileSize = e,
                  currBytePos = 0, totalBytesStored = 0, fileLimitIsReached = False\<rparr>)"
    unfolding TextLogger_Create_def e_def Let_def by (simp only: prod.case option.case mult_1)
  show ?thesis
    unfolding step e_sint by (simp add: e_norm)
qed

section \<open>The ledger bound\<close>

text \<open>
  C1 says that after every public operation \<open>0 \<le> buffer_used \<le> buffer_capacity\<close>,
  because the formatter is length-limited. The code breaks it. \<^verbatim>\<open>snprintf\<close> is
  length-limited in what it stores, but it returns the length of the whole text, and that
  is what \<open>currBytePos\<close> advances by. With a buffer of 20 bytes, as create returns it, a
  single \<open>TextLogger_LogTimeStamp\<close> stores 19 characters and a NUL, returns success and
  leaves \<open>currBytePos = 24\<close>, above \<open>maxBufferByteSize = 20\<close>; the flush that
  follows would have \<^verbatim>\<open>fwrite\<close> read 24 bytes from the buffer of 20.
\<close>

theorem timestamp_exceeds_capacity:
  "TextLogger_Create lp64_malloc (Some ''./TestLog.txt'') (Some ''X'') 5 20 2048 = Some c20 \<and>
   ledger_in_bounds c20 \<and>
   TextLogger_LogTimeStamp t0 w0 (Some c20) =
     Some (TEXTLOGGER_SUCCESS,
           Some (c20\<lparr>pTextBuffer := ''[2024-01-02 | 03:04'' @ [NUL],
                      currBytePos := 24, totalBytesStored := 24\<rparr>), w0) \<and>
   \<not> ledger_in_bounds (c20\<lparr>pTextBuffer := ''[2024-01-02 | 03:04'' @ [NUL],
                             currBytePos := 24, totalBytesStored := 24\<rparr>) \<and>
   TextLogger_FlushTextToFileStream w0
     (Some (c20\<lparr>pTextBuffer := ''[2024-01-02 | 03:04'' @ [NUL],
                 currBytePos := 24, totalBytesStored := 24\<rparr>)) = None"
proof (intro conjI)
  show "ledger_in_bounds c20"
    by (simp add: ledger_in_bounds_def c20_def)
  show "\<not> ledger_in_bounds (c20\<lparr>pTextBuffer := ''[2024-01-02 | 03:04'' @ [NUL],
                             currBytePos := 24, totalBytesStored := 24\<rparr>)"
    by (simp add: ledger_in_bounds_def c20_def)
qed (rule eval_create_20 eval_stamp_20 eval_flush_20)+

text \<open>
  The bound is kept wherever the text to be written is no longer than the buffer. For a
  context within the bound whose buffer has the size create asked for: a flush and the
  flush of destroy return and keep the bound; \<open>TextLogger_LogTimeStamp\<close> returns and
  keeps it when the time stamp is at most \<open>maxBufferByteSize\<close> bytes long; a
  per-severity call returns and keeps it when the time stamp and the payload with its six
  extra bytes both are. None of them reads or writes outside the buffer.
\<close>

theorem ledger_bound_kept:
  assumes "buffer_allocated c" and "ledger_in_bounds c"
  shows "(\<exists>st c1 w1. TextLogger_FlushTextToFileStream w (Some c) = Some (st, Some c1, w1) \<and>
            ledger_in_bounds c1 \<and> buffer_allocated c1) \<and>
         (\<exists>st c1 w1. flush_body w c = Some (st, c1, w1) \<and> ledger_in_bounds c1 \<and>
            TextLogger_Destroy w (Some c) = Some (st, w1)) \<and>
         (int (length (format_time t)) \<le> sint (maxBufferByteSize c) \<longrightarrow>
            (\<exists>st c1 w1. TextLogger_LogTimeStamp t w (Some c) = Some (st, Some c1, w1) \<and>
               ledger_in_bounds c1 \<and> buffer_allocated c1)) \<and>
         (int (length (format_time t)) \<le> sint (maxBufferByteSize c) \<and>
          int (length msg) + 6 \<le> sint (maxBufferByteSize c) \<longrightarrow>
            (\<exists>st c1 w1.
               severity_call level t w (Some c) (Some msg) = Some (st, Some c1, w1) \<and>
               ledger_in_bounds c1 \<and> buffer_allocated c1))"
proof -
  from flush_body_defined [OF in_bounds_unat(2) [OF assms(2,1)]]
  obtain st c1 w1 where fl: "flush_body w c = Some (st, c1, w1)" by blast
  note k = flush_body_keeps_bounds [OF fl assms(2,1)]
  have 1: "\<exists>st c1 w1. TextLogger_FlushTextToFileStream w (Some c) = Some (st, Some c1, w1) \<and>
            ledger_in_bounds c1 \<and> buffer_allocated c1"
    using fl k by (simp add: TextLogger_FlushTextToFileStream_def returning_def)
  have 2: "\<exists>st c1 w1. flush_body w c = Some (st, c1, w1) \<and> ledger_in_bounds c1 \<and>
            TextLogger_Destroy w (Some c) = Some (st, w1)"
    using fl k by (simp add: TextLogger_Destroy_def)
  have 3: "\<exists>st c1 w1. TextLogger_LogTimeStamp t w (Some c) = Some (st, Some c1, w1) \<and>
               ledger_in_bounds c1 \<and> buffer_allocated c1"
    if "int (length (format_time t)) \<le> sint (maxBufferByteSize c)"
    using timestamp_body_ok [OF assms that, of w]
    by (auto simp: TextLogger_LogTimeStamp_def returning_def)
  have 4: "\<exists>st c1 w1.
               severity_call level t w (Some c) (Some msg) = Some (st, Some c1, w1) \<and>
               ledger_in_bounds c1 \<and> buffer_allocated c1"
    if "int (length (format_time t)) \<le> sint (maxBufferByteSize c)"
      and "int (length msg) + 6 \<le> sint (maxBufferByteSize c)"
    using severity_call_ok [OF assms that] by blast
  from 1 2 3 4 show ?thesis by (intro conjI impI) blast+
qed

text \<open>The bound is kept in the buffer of 64 bytes, where the stamp and the record fit.\<close>

theorem ledger_bound_kept_witness:
  "buffer_allocated c_warn \<and> ledger_in_bounds c_warn \<and>
   int (length (format_time t0)) \<le> sint (maxBufferByteSize c_warn) \<and>
   int (length ''e'') + 6 \<le> sint (maxBufferByteSize c_warn) \<and>
   (\<exists>st c1 w1. TextLogger_FlushTextToFileStream w0 (Some c_warn) = Some (st, Some c1, w1) \<and>
      ledger_in_bounds c1 \<and> buffer_allocated c1) \<and>
   (\<exists>st c1 w1. TextLogger_LogTimeStamp t0 w0 (Some c_warn) = Some (st, Some c1, w1) \<and>
      ledger_in_bounds c1 \<and> buffer_allocated c1) \<and>
   (\<exists>st c1 w1. TextLogger_LogError t0 w0 (Some c_warn) (Some ''e'') = Some (st, Some c1, w1) \<and>
      ledger_in_bounds c1 \<and> buffer_allocated c1)"
proof -
  have a: "buffer_allocated c_warn" by (simp add: buffer_allocated_def c_warn_def)
  have b: "ledger_in_bounds c_warn" by (simp add: ledger_in_bounds_def c_warn_def)
  have t: "int (length (format_time t0)) \<le> sint (maxBufferByteSize c_warn)"
    by (simp add: format_time_t0 c_warn_def)
  have m: "int (length ''e'') + 6 \<le> sint (maxBufferByteSize c_warn)"
    by (simp add: c_warn_def)
  from ledger_bound_kept [OF a b, where t = t0 and w = w0 and msg = "''e''"
      and level = LOG_LEVEL_ERROR] a b t m
  show ?thesis by simp
qed

section \<open>After the limit flag is set\<close>

text \<open>
  C2 says that once \<open>fileLimitIsReached\<close> is true every later log or flush call returns
  the insufficient-space status and changes neither counter nor the file. On the code it
  fails. The context \<open>c256\<close>, as create returns it, takes two time stamps; the file
  holds 260 bytes, so the flush finds \<open>48 + 260 > 296\<close>, sets the flag and returns
  insufficient-space. The count is still below the budget, and from then on: a flush
  returns success; a time stamp returns success and advances both counters; the next flush
  finds \<open>24 + 260 \<le> 296\<close> and appends the 24 bytes to the file. And where the
  flag was set with the budget used up (\<open>c_full\<close>, reached from create by a time
  stamp and a flush), a call whose record is filtered out still returns success.
\<close>

theorem latched_context_still_writes:
  "TextLogger_Create lp64_malloc (Some ''./TestLog.txt'') (Some ''END'') 5 256 300 = Some c256 \<and>
   TextLogger_LogTimeStamp t0 w260 (Some c256) = Some (TEXTLOGGER_SUCCESS, Some c24, w260) \<and>
   TextLogger_LogTimeStamp t0 w260 (Some c24) = Some (TEXTLOGGER_SUCCESS, Some c48, w260) \<and>
   TextLogger_FlushTextToFileStream w260 (Some c48) =
     Some (TEXTLOGGER_ERR_INSUFFICIENT_FILE_SPACE, Some c_latched, w260) \<and>
   fileLimitIsReached c_latched \<and>
   TextLogger_FlushTextToFileStream w260 (Some c_latched) =
     Some (TEXTLOGGER_SUCCESS, Some c_latched, w260) \<and>
   TextLogger_LogTimeStamp t0 w260 (Some c_latched) =
     Some (TEXTLOGGER_SUCCESS, Some c_relogged, w260) \<and>
   currBytePos c_relogged = 24 \<and> totalBytesStored c_relogged = 72 \<and>
   TextLogger_FlushTextToFileStream w260 (Some c_relogged) =
     Some (TEXTLOGGER_SUCCESS, Some (c_relogged\<lparr>currBytePos := 0\<rparr>),
           w260\<lparr>files := (files w260)(''./TestLog.txt'' := replicate 260 (CHR ''x'') @ stamp0),
                fwrites := [stamp0]\<rparr>) \<and>
   TextLogger_Create lp64_malloc (Some ''./TestLog.txt'') (Some ''END'') 2 256 28 = Some c_tight \<and>
   TextLogger_LogTimeStamp t0 w0 (Some c_tight) = Some (TEXTLOGGER_SUCCESS, Some c_brim, w0) \<and>
   TextLogger_FlushTextToFileStream w0 (Some c_brim) =
     Some (TEXTLOGGER_ERR_INSUFFICIENT_FILE_SPACE, Some c_full, w_marked) \<and>
   fileLimitIsReached c_full \<and>
   TextLogger_LogInfo t0 w_marked (Some c_full) (Some ''e'') =
     Some (TEXTLOGGER_SUCCESS, Some c_full, w_marked)"
proof (intro conjI)
  show "fileLimitIsReached c_full" by (simp add: c_full_def)
  show "fileLimitIsReached c_latched" by (simp add: c_latched_def)
  show "currBytePos c_relogged = 24" by (simp add: c_relogged_def)
  show "totalBytesStored c_relogged = 72" by (simp add: c_relogged_def)
qed (rule eval_create_256 eval_stamp_256 eval_stamp_24 eval_overshoot eval_flush_latched
       eval_stamp_latched eval_flush_relogged eval_create_tight eval_stamp_tight
       eval_marker_written eval_info_dropped)+

text \<open>
  C2, as the code has it: once \<open>fileLimitIsReached\<close> is true and
  \<open>totalBytesStored\<close> has reached \<open>maxFileSize\<close> (which create makes positive),
  every flush, every \<open>TextLogger_LogTimeStamp\<close> and every per-severity call whose
  record is admitted returns the insufficient-space status, and a per-severity call whose
  record is filtered out returns success; each of them leaves the context and the world,
  and so both counters and the file, exactly as they were. Hence every sequence of such
  calls is answered in this way, call by call, and changes nothing.
\<close>

theorem latched_and_exhausted:
  assumes "fileLimitIsReached c" and "sint (maxFileSize c) \<le> sint (totalBytesStored c)"
    and "0 < sint (maxFileSize c)"
  shows "TextLogger_FlushTextToFileStream w (Some c) =
           Some (TEXTLOGGER_ERR_INSUFFICIENT_FILE_SPACE, Some c, w) \<and>
         TextLogger_LogTimeStamp t w (Some c) =
           Some (TEXTLOGGER_ERR_INSUFFICIENT_FILE_SPACE, Some c, w) \<and>
         severity_call level t w (Some c) (Some msg) =
            Some (if sint (level_value level) \<le> sint (logLevel c)
                  then TEXTLOGGER_ERR_INSUFFICIENT_FILE_SPACE else TEXTLOGGER_SUCCESS,
                  Some c, w) \<and>
         perform_all ks w (Some c) = Some (map (refusal c) ks, Some c, w)"
proof -
  have "perform_all ks w (Some c) = Some (map (refusal c) ks, Some c, w)"
    by (induction ks) (simp_all add: exhausted_perform [OF assms])
  with exhausted_step [OF assms] show ?thesis by simp
qed

text \<open>
  Witness for C2: the context at level warn whose 24 bytes of budget are used up and
  whose marker has been written refuses a flush, a time stamp and a warning, and in a
  sequence of five calls refuses four and drops the info record.
\<close>

theorem latched_and_exhausted_witness:
  "fileLimitIsReached c_full \<and> sint (maxFileSize c_full) \<le> sint (totalBytesStored c_full) \<and>
   0 < sint (maxFileSize c_full) \<and>
   TextLogger_FlushTextToFileStream w_marked (Some c_full) =
     Some (TEXTLOGGER_ERR_INSUFFICIENT_FILE_SPACE, Some c_full, w_marked) \<and>
   TextLogger_LogTimeStamp t0 w_marked (Some c_full) =
     Some (TEXTLOGGER_ERR_INSUFFICIENT_FILE_SPACE, Some c_full, w_marked) \<and>
   TextLogger_LogWarn t0 w_marked (Some c_full) (Some ''e'') =
     Some (TEXTLOGGER_ERR_INSUFFICIENT_FILE_SPACE, Some c_full, w_marked) \<and>
   perform_all [LogCall LOG_LEVEL_ERROR t0 ''e'', FlushCall, LogCall LOG_LEVEL_INFO t0 ''e'',
                StampCall t0, FlushCall] w_marked (Some c_full) =
     Some ([TEXTLOGGER_ERR_INSUFFICIENT_FILE_SPACE, TEXTLOGGER_ERR_INSUFFICIENT_FILE_SPACE,
            TEXTLOGGER_SUCCESS, TEXTLOGGER_ERR_INSUFFICIENT_FILE_SPACE,
            TEXTLOGGER_ERR_INSUFFICIENT_FILE_SPACE], Some c_full, w_marked)"
proof -
  have 1: "fileLimitIsReached c_full" by (simp add: c_full_def)
  have 2: "sint (maxFileSize c_full) \<le> sint (totalBytesStored c_full)"
    by (simp add: c_full_def c_brim_def c_tight_def)
  have 3: "0 < sint (maxFileSize c_full)" by (simp add: c_full_def c_brim_def c_tight_def)
  have l: "logLevel c_full = 2" by (simp add: c_full_def c_brim_def c_tight_def)
  from latched_and_exhausted [OF 1 2 3, where w = w_marked and t = t0 and msg = "''e''"
      and level = LOG_LEVEL_WARN
      and ks = "[LogCall LOG_LEVEL_ERROR t0 ''e'', FlushCall, LogCall LOG_LEVEL_INFO t0 ''e'',
                StampCall t0, FlushCall]"] 1 2 3
  show ?thesis by (simp add: l)
qed

section \<open>The flush that would overshoot\<close>

text \<open>
  C3 says that the flush which finds the file too full for the buffer leaves
  \<open>buffer_used\<close> unchanged. On the code it fails: with 48 bytes in the buffer and 260
  in the file against a budget of 296, the flush returns with \<open>currBytePos = 0\<close>.
\<close>

theorem overshoot_discards_buffer:
  "TextLogger_FlushTextToFileStream w260 (Some c48) =
     Some (TEXTLOGGER_ERR_INSUFFICIENT_FILE_SPACE,
           Some (c48\<lparr>fileLimitIsReached := True, currBytePos := 0\<rparr>), w260) \<and>
   currBytePos c48 = 48 \<and>
   currBytePos (c48\<lparr>fileLimitIsReached := True, currBytePos := 0\<rparr>) \<noteq> currBytePos c48"
  using eval_overshoot by (simp add: c_latched_def) (simp add: c48_def)

text \<open>
  C3, as the code has it: when the buffer is not empty, \<open>totalBytesStored\<close> is below
  \<open>maxFileSize\<close>, the file opens, and its length plus \<open>currBytePos\<close> exceeds
  \<open>maxFileSize\<close>, the flush sets \<open>fileLimitIsReached\<close>, writes nothing to the
  file, returns the insufficient-space status and resets \<open>currBytePos\<close> to 0: the
  pending bytes are dropped. Nothing else in the context changes.
\<close>

theorem overshoot_branch:
  assumes "\<not> sint (maxFileSize c) \<le> sint (totalBytesStored c)" and "currBytePos c \<noteq> 0"
    and "fopen_ab w (pFilePath c) = (Some f, w1)"
    and "sint (maxFileSize c) < sint (currBytePos c) + int (length (files w (pFilePath c)))"
  shows "TextLogger_FlushTextToFileStream w (Some c) =
           Some (TEXTLOGGER_ERR_INSUFFICIENT_FILE_SPACE,
                 Some (c\<lparr>fileLimitIsReached := True, currBytePos := 0\<rparr>), w1) \<and>
         files w1 = files w \<and> fwrites w1 = fwrites w"
proof -
  note fo = fopen_ab_files [OF assms(3)]
  note ft = ftell_end_fresh [OF assms(3)] and fc = fclose_fresh [OF assms(3)]
  from assms fo ft fc show ?thesis
    by (simp add: TextLogger_FlushTextToFileStream_def returning_def flush_body_def)
qed

text \<open>Witness for C3: the flush of 48 bytes towards a file of 260 bytes.\<close>

theorem overshoot_branch_witness:
  "\<not> sint (maxFileSize c48) \<le> sint (totalBytesStored c48) \<and> currBytePos c48 \<noteq> 0 \<and>
   fopen_ab w260 (pFilePath c48) = (Some (Stream ''./TestLog.txt'' None), w260) \<and>
   sint (maxFileSize c48) < sint (currBytePos c48) + int (length (files w260 (pFilePath c48))) \<and>
   TextLogger_FlushTextToFileStream w260 (Some c48) =
     Some (TEXTLOGGER_ERR_INSUFFICIENT_FILE_SPACE,
           Some (c48\<lparr>fileLimitIsReached := True, currBytePos := 0\<rparr>), w260)"
proof -
  have 1: "\<not> sint (maxFileSize c48) \<le> sint (totalBytesStored c48)"
    by (simp add: c48_def c256_def)
  have 2: "currBytePos c48 \<noteq> 0" by (simp add: c48_def)
  have 3: "fopen_ab w260 (pFilePath c48) = (Some (Stream ''./TestLog.txt'' None), w260)"
    by (simp add: fopen_ab_def c48_def c256_def w260_def)
  have 4: "sint (maxFileSize c48) < sint (currBytePos c48) + int (length (files w260 (pFilePath c48)))"
    by (simp add: c48_def c256_def w260_def)
  from overshoot_branch [OF 1 2 3 4] 1 2 3 4 show ?thesis by simp
qed

section \<open>What the count of stored bytes counts\<close>

text \<open>
  C4 says that \<open>total_written\<close> is the number of bytes committed to the file, bytes
  pending in the buffer or discarded not included. On the code it fails: one time stamp
  on a new context makes \<open>totalBytesStored = 24\<close> while nothing has been written to
  any file, and the 48 bytes that the overshooting flush drops stay counted.
\<close>

theorem total_counts_pending_bytes:
  "TextLogger_Create lp64_malloc (Some ''./TestLog.txt'') (Some ''X'') 2 64 2048 = Some c_warn \<and>
   TextLogger_LogTimeStamp t0 w0 (Some c_warn) = Some (TEXTLOGGER_SUCCESS, Some c_stamped, w0) \<and>
   totalBytesStored c_stamped = 24 \<and> fwrites w0 = [] \<and> files w0 ''./TestLog.txt'' = [] \<and>
   TextLogger_FlushTextToFileStream w260 (Some c48) =
     Some (TEXTLOGGER_ERR_INSUFFICIENT_FILE_SPACE, Some c_latched, w260) \<and>
   totalBytesStored c_latched = 48 \<and> currBytePos c_latched = 0 \<and> fwrites w260 = []"
proof (intro conjI)
  show "totalBytesStored c_stamped = 24" by (simp add: c_stamped_def)
  show "fwrites w0 = []" by (simp add: w0_def)
  show "files w0 ''./TestLog.txt'' = []" by (simp add: w0_def)
  show "totalBytesStored c_latched = 48" by (simp add: c_latched_def c48_def)
  show "currBytePos c_latched = 0" by (simp add: c_latched_def)
  show "fwrites w260 = []" by (simp add: w260_def)
qed (rule eval_create_warn eval_stamp eval_overshoot)+

text \<open>
  C4, as the code has it: \<open>totalBytesStored\<close> counts the bytes that the formatter
  reported when a time stamp or a record went into the buffer, whether they are pending,
  committed or dropped later. A flush never changes it, whatever it returns. A
  \<open>TextLogger_LogTimeStamp\<close> that succeeds advances it by the length of the stamp,
  and one that fails leaves it. A per-severity call (with a line length that is an
  \<^verbatim>\<open>int\<close>) leaves it when the record is filtered out, advances it by the length
  of the stamp plus the payload plus 6 when it succeeds, and when it fails either leaves
  it or has advanced it by the stamp alone.
\<close>

theorem total_counts_buffered_bytes:
  "(TextLogger_FlushTextToFileStream w (Some c) = Some (st, Some c1, w1) \<longrightarrow>
      totalBytesStored c1 = totalBytesStored c) \<and>
   (TextLogger_LogTimeStamp t w (Some c) = Some (st, Some c1, w1) \<longrightarrow>
      totalBytesStored c1 =
        (if st = TEXTLOGGER_SUCCESS then totalBytesStored c + of_nat (length (format_time t))
         else totalBytesStored c)) \<and>
   (int (length msg) + 6 \<le> 2147483647 \<and>
    severity_call level t w (Some c) (Some msg) = Some (st, Some c1, w1) \<longrightarrow>
      (if \<not> sint (level_value level) \<le> sint (logLevel c)
       then st = TEXTLOGGER_SUCCESS \<and> totalBytesStored c1 = totalBytesStored c
       else if st = TEXTLOGGER_SUCCESS
       then totalBytesStored c1 =
              totalBytesStored c + of_nat (length (format_time t)) + of_nat (length msg + 6)
       else totalBytesStored c1 = totalBytesStored c \<or>
            totalBytesStored c1 = totalBytesStored c + of_nat (length (format_time t))))"
proof (intro conjI impI)
  assume "TextLogger_FlushTextToFileStream w (Some c) = Some (st, Some c1, w1)"
  then have "flush_body w c = Some (st, c1, w1)"
    by (auto simp: TextLogger_FlushTextToFileStream_def returning_def split: option.splits)
  then show "totalBytesStored c1 = totalBytesStored c" by (simp add: flush_body_frame)
next
  assume "TextLogger_LogTimeStamp t w (Some c) = Some (st, Some c1, w1)"
  then have "timestamp_body t w c = Some (st, c1, w1)"
    by (auto simp: TextLogger_LogTimeStamp_def returning_def split: option.splits)
  then show "totalBytesStored c1 =
        (if st = TEXTLOGGER_SUCCESS then totalBytesStored c + of_nat (length (format_time t))
         else totalBytesStored c)"
    by (rule timestamp_body_total)
next
  assume a: "int (length msg) + 6 \<le> 2147483647 \<and>
    severity_call level t w (Some c) (Some msg) = Some (st, Some c1, w1)"
  show "if \<not> sint (level_value level) \<le> sint (logLevel c)
       then st = TEXTLOGGER_SUCCESS \<and> totalBytesStored c1 = totalBytesStored c
       else if st = TEXTLOGGER_SUCCESS
       then totalBytesStored c1 =
              totalBytesStored c + of_nat (length (format_time t)) + of_nat (length msg + 6)
       else totalBytesStored c1 = totalBytesStored c \<or>
            totalBytesStored c1 = totalBytesStored c + of_nat (length (format_time t))"
  proof (cases "sint (level_value level) \<le> sint (logLevel c)")
    case False
    with a show ?thesis by (simp add: severity_call_dropped)
  next
    case True
    with a have "TextLogger_WriteToBuffer t w c msg
                   (ucast (strlen msg + LOG_EXTRA_STR_LENGTH)) level = Some (st, c1, w1)"
      by (auto simp: severity_call_admitted returning_def split: option.splits)
    from write_to_buffer_fn_total [OF this] a True show ?thesis by simp
  qed
qed

text \<open>
  Witness for C4: an empty flush, a time stamp (24 bytes) and the error record \<open>e\<close>
  (24 + 7 bytes) on a new context.
\<close>

theorem total_counts_buffered_bytes_witness:
  "TextLogger_FlushTextToFileStream w0 (Some c_warn) =
     Some (TEXTLOGGER_SUCCESS, Some c_warn, w0) \<and>
   TextLogger_LogTimeStamp t0 w0 (Some c_warn) = Some (TEXTLOGGER_SUCCESS, Some c_stamped, w0) \<and>
   totalBytesStored c_stamped = totalBytesStored c_warn + of_nat (length (format_time t0)) \<and>
   int (length ''e'') + 6 \<le> 2147483647 \<and>
   TextLogger_LogError t0 w0 (Some c_warn) (Some ''e'') =
     Some (TEXTLOGGER_SUCCESS, Some c_logged, w0) \<and>
   totalBytesStored c_logged =
     totalBytesStored c_warn + of_nat (length (format_time t0)) + of_nat (length ''e'' + 6)"
proof -
  have l: "sint (level_value LOG_LEVEL_ERROR) \<le> sint (logLevel c_warn)"
    by (simp add: c_warn_def)
  from total_counts_buffered_bytes [where w = w0 and c = c_warn and t = t0
      and st = TEXTLOGGER_SUCCESS and ?c1.0 = c_stamped and ?w1.0 = w0]
    eval_stamp
  have 1: "totalBytesStored c_stamped =
             totalBytesStored c_warn + of_nat (length (format_time t0))"
    by simp
  from total_counts_buffered_bytes [where w = w0 and c = c_warn and t = t0
      and st = TEXTLOGGER_SUCCESS and ?c1.0 = c_logged and ?w1.0 = w0
      and level = LOG_LEVEL_ERROR and msg = "''e''"]
    eval_log l
  have 2: "totalBytesStored c_logged =
     totalBytesStored c_warn + of_nat (length (format_time t0)) + of_nat (length ''e'' + 6)"
    by simp
  from 1 2 eval_flush_empty eval_stamp eval_log show ?thesis by simp
qed

section \<open>Records and flushes\<close>




section \<open>File errors\<close>

text \<open>
  C7 says that a call which returns the file-error status leaves the buffer,
  \<open>buffer_used\<close>, \<open>marker_emitted\<close> and \<open>total_written\<close> as they were. On the
  code it fails twice. When the budget is used up and the marker cannot be written
  (\<^verbatim>\<open>fopen\<close> fails), the flush returns the file-error status with
  \<open>fileLimitIsReached\<close> already set. And when the flush between the time stamp and the
  line of a record fails, the per-severity call returns the file-error status with the
  time stamp in the buffer and both counters advanced by 24.
\<close>

theorem file_error_changes_ledger:
  "TextLogger_Create lp64_malloc (Some ''./TestLog.txt'') (Some ''END'') 2 256 28 = Some c_tight \<and>
   TextLogger_LogTimeStamp t0 w0 (Some c_tight) = Some (TEXTLOGGER_SUCCESS, Some c_brim, w0) \<and>
   \<not> fileLimitIsReached c_brim \<and>
   TextLogger_FlushTextToFileStream w_fail (Some c_brim) =
     Some (TEXTLOGGER_ERR_FILE_ERROR, Some (c_brim\<lparr>fileLimitIsReached := True\<rparr>), w0) \<and>
   fileLimitIsReached (c_brim\<lparr>fileLimitIsReached := True\<rparr>) \<and>
   TextLogger_Create lp64_malloc (Some ''./TestLog.txt'') (Some ''X'') 2 64 2048 = Some c_warn \<and>
   TextLogger_LogError t0 w_fail (Some c_warn) (Some msg34) =
     Some (TEXTLOGGER_ERR_FILE_ERROR, Some c_stamped, w0) \<and>
   currBytePos c_warn = 0 \<and> totalBytesStored c_warn = 0 \<and>
   currBytePos c_stamped = 24 \<and> totalBytesStored c_stamped = 24 \<and>
   pending c_warn = [] \<and> pending c_stamped = stamp0"
proof (intro conjI)
  show "\<not> fileLimitIsReached c_brim" by (simp add: c_brim_def c_tight_def)
  show "fileLimitIsReached (c_brim\<lparr>fileLimitIsReached := True\<rparr>)" by simp
  show "currBytePos c_warn = 0" by (simp add: c_warn_def)
  show "totalBytesStored c_warn = 0" by (simp add: c_warn_def)
  show "currBytePos c_stamped = 24" by (simp add: c_stamped_def)
  show "totalBytesStored c_stamped = 24" by (simp add: c_stamped_def)
  show "pending c_warn = []" by (simp add: pending_def c_warn_def)
  show "pending c_stamped = stamp0" by (simp add: pending_def c_stamped_def stamp0_def)
qed (rule eval_create_tight eval_stamp_tight eval_marker_fail eval_create_warn eval_log_fail)+

text \<open>
  C7, as the code has it: when a flush or a \<open>TextLogger_LogTimeStamp\<close> returns the
  file-error status, the context is as before the call (buffer, \<open>currBytePos\<close>,
  \<open>totalBytesStored\<close> and all), except that \<open>fileLimitIsReached\<close> has been set
  when the failure was that of writing the marker, for which the budget must be used up
  and the flag must have been false. When a per-severity call returns the file-error
  status, either the same holds, or the failure is that of the flush between the time
  stamp and the line. The time stamp step is then complete: the stamp has been formatted
  into the buffer at an offset \<open>p\<close>, \<open>totalBytesStored\<close> is advanced by its
  length and \<open>currBytePos\<close> is \<open>p\<close> plus its length, where \<open>p\<close> is the
  \<open>currBytePos\<close> of before the call when the stamp needed no flush, and 0 when it
  did and that flush succeeded, the bytes pending before the call having been handed to
  \<^verbatim>\<open>fwrite\<close>. The context returned is that one, except for
  \<open>fileLimitIsReached\<close>, set as above.
\<close>

theorem file_error_effects:
  "(TextLogger_FlushTextToFileStream w (Some c) = Some (TEXTLOGGER_ERR_FILE_ERROR, Some c1, w1) \<longrightarrow>
      c1 = c \<or>
      (c1 = c\<lparr>fileLimitIsReached := True\<rparr> \<and> \<not> fileLimitIsReached c \<and>
       sint (maxFileSize c) \<le> sint (totalBytesStored c))) \<and>
   (TextLogger_LogTimeStamp t w (Some c) = Some (TEXTLOGGER_ERR_FILE_ERROR, Some c1, w1) \<longrightarrow>
      c1 = c \<or>
      (c1 = c\<lparr>fileLimitIsReached := True\<rparr> \<and> \<not> fileLimitIsReached c \<and>
       sint (maxFileSize c) \<le> sint (totalBytesStored c))) \<and>
   (severity_call level t w (Some c) (Some msg) = Some (TEXTLOGGER_ERR_FILE_ERROR, Some c1, w1) \<longrightarrow>
      c1 = c \<or>
      (c1 = c\<lparr>fileLimitIsReached := True\<rparr> \<and> \<not> fileLimitIsReached c \<and>
       sint (maxFileSize c) \<le> sint (totalBytesStored c)) \<or>
      (\<exists>p0 buf c0.
         (p0 = currBytePos c \<and>
            \<not> TextLogger_FlushBufferIsNeeded c (ucast (strlen (format_time t))) \<or>
          p0 = 0 \<and> TextLogger_FlushBufferIsNeeded c (ucast (strlen (format_time t))) \<and>
            (\<exists>w0. TextLogger_FlushTextToFileStream w (Some c) =
                    Some (TEXTLOGGER_SUCCESS, Some (c\<lparr>currBytePos := 0\<rparr>), w0))) \<and>
         snprintf (pTextBuffer c) p0 (scast (maxBufferByteSize c - p0)) (format_time t) =
           Some (buf, of_nat (length (format_time t))) \<and>
         c0 = c\<lparr>pTextBuffer := buf,
                 currBytePos := p0 + of_nat (length (format_time t)),
                 totalBytesStored := totalBytesStored c + of_nat (length (format_time t))\<rparr> \<and>
         TextLogger_FlushBufferIsNeeded c0 (ucast (strlen msg + LOG_EXTRA_STR_LENGTH)) \<and>
         (c1 = c0 \<or>
          (c1 = c0\<lparr>fileLimitIsReached := True\<rparr> \<and> \<not> fileLimitIsReached c0 \<and>
           sint (maxFileSize c0) \<le> sint (totalBytesStored c0)))))"
proof (intro conjI impI)
  assume "TextLogger_FlushTextToFileStream w (Some c) = Some (TEXTLOGGER_ERR_FILE_ERROR, Some c1, w1)"
  then have "flush_body w c = Some (TEXTLOGGER_ERR_FILE_ERROR, c1, w1)"
    by (auto simp: TextLogger_FlushTextToFileStream_def returning_def split: option.splits)
  then show "c1 = c \<or>
      (c1 = c\<lparr>fileLimitIsReached := True\<rparr> \<and> \<not> fileLimitIsReached c \<and>
       sint (maxFileSize c) \<le> sint (totalBytesStored c))"
    by (rule flush_body_file_error)
next
  assume "TextLogger_LogTimeStamp t w (Some c) = Some (TEXTLOGGER_ERR_FILE_ERROR, Some c1, w1)"
  then have "timestamp_body t w c = Some (TEXTLOGGER_ERR_FILE_ERROR, c1, w1)"
    by (auto simp: TextLogger_LogTimeStamp_def returning_def split: option.splits)
  then have "flush_body w c = Some (TEXTLOGGER_ERR_FILE_ERROR, c1, w1)"
    by (rule timestamp_body_file_error)
  then show "c1 = c \<or>
      (c1 = c\<lparr>fileLimitIsReached := True\<rparr> \<and> \<not> fileLimitIsReached c \<and>
       sint (maxFileSize c) \<le> sint (totalBytesStored c))"
    by (rule flush_body_file_error)
next
  let ?n = "ucast (strlen msg + LOG_EXTRA_STR_LENGTH) :: c_int"
  let ?before = "c1 = c \<or>
      (c1 = c\<lparr>fileLimitIsReached := True\<rparr> \<and> \<not> fileLimitIsReached c \<and>
       sint (maxFileSize c) \<le> sint (totalBytesStored c))"
  let ?after = "\<exists>p0 buf c0.
         (p0 = currBytePos c \<and>
            \<not> TextLogger_FlushBufferIsNeeded c (ucast (strlen (format_time t))) \<or>
          p0 = 0 \<and> TextLogger_FlushBufferIsNeeded c (ucast (strlen (format_time t))) \<and>
            (\<exists>w0. TextLogger_FlushTextToFileStream w (Some c) =
                    Some (TEXTLOGGER_SUCCESS, Some (c\<lparr>currBytePos := 0\<rparr>), w0))) \<and>
         snprintf (pTextBuffer c) p0 (scast (maxBufferByteSize c - p0)) (format_time t) =
           Some (buf, of_nat (length (format_time t))) \<and>
         c0 = c\<lparr>pTextBuffer := buf,
                 currBytePos := p0 + of_nat (length (format_time t)),
                 totalBytesStored := totalBytesStored c + of_nat (length (format_time t))\<rparr> \<and>
         TextLogger_FlushBufferIsNeeded c0 ?n \<and>
         (c1 = c0 \<or>
          (c1 = c0\<lparr>fileLimitIsReached := True\<rparr> \<and> \<not> fileLimitIsReached c0 \<and>
           sint (maxFileSize c0) \<le> sint (totalBytesStored c0)))"
  assume a: "severity_call level t w (Some c) (Some msg) =
               Some (TEXTLOGGER_ERR_FILE_ERROR, Some c1, w1)"
  then have adm: "sint (level_value level) \<le> sint (logLevel c)"
    by (rule contrapos_pp) (simp add: severity_call_dropped)
  with a have wb: "TextLogger_WriteToBuffer t w c msg ?n level =
                 Some (TEXTLOGGER_ERR_FILE_ERROR, c1, w1)"
    by (auto simp: severity_call_admitted returning_def split: option.splits)
  then obtain st0 c0 w0 where ts0: "timestamp_body t w c = Some (st0, c0, w0)"
    by (auto simp: write_to_buffer_eq split: option.splits)
  have "?before \<or> ?after"
  proof (cases "st0 = TEXTLOGGER_SUCCESS")
    case False
    with wb ts0 have "timestamp_body t w c = Some (TEXTLOGGER_ERR_FILE_ERROR, c1, w1)"
      by (simp add: write_to_buffer_eq)
    from flush_body_file_error [OF timestamp_body_file_error [OF this]]
    show ?thesis by blast
  next
    case True
    with wb ts0 have "buffered_write w0 c0 (log_msg_tag level @ msg @ [LF]) ?n =
                     Some (TEXTLOGGER_ERR_FILE_ERROR, c1, w1)"
      by (simp add: write_to_buffer_eq)
    from buffered_write_cases [OF this]
    have need: "TextLogger_FlushBufferIsNeeded c0 ?n"
      and f: "flush_body w0 c0 = Some (TEXTLOGGER_ERR_FILE_ERROR, c1, w1)" by simp_all
    note fe = flush_body_file_error [OF f]
    from ts0 True have "timestamp_body t w c = Some (TEXTLOGGER_SUCCESS, c0, w0)" by simp
    from timestamp_body_success [OF this] obtain p0 buf where
      p: "p0 = currBytePos c \<and> w0 = w \<and>
              \<not> TextLogger_FlushBufferIsNeeded c (ucast (strlen (format_time t))) \<or>
            p0 = 0 \<and> TextLogger_FlushBufferIsNeeded c (ucast (strlen (format_time t))) \<and>
              flush_body w c = Some (TEXTLOGGER_SUCCESS, c\<lparr>currBytePos := 0\<rparr>, w0)"
      and s: "snprintf (pTextBuffer c) p0 (scast (maxBufferByteSize c - p0)) (format_time t) =
             Some (buf, of_nat (length (format_time t)))"
      and c0: "c0 = c\<lparr>pTextBuffer := buf,
                   currBytePos := p0 + of_nat (length (format_time t)),
                   totalBytesStored := totalBytesStored c + of_nat (length (format_time t))\<rparr>"
      by blast
    from p have p': "p0 = currBytePos c \<and>
            \<not> TextLogger_FlushBufferIsNeeded c (ucast (strlen (format_time t))) \<or>
          p0 = 0 \<and> TextLogger_FlushBufferIsNeeded c (ucast (strlen (format_time t))) \<and>
            (\<exists>w0. TextLogger_FlushTextToFileStream w (Some c) =
                    Some (TEXTLOGGER_SUCCESS, Some (c\<lparr>currBytePos := 0\<rparr>), w0))"
      by (auto simp: TextLogger_FlushTextToFileStream_def returning_def)
    from p' s c0 need fe have ?after by blast
    then show ?thesis ..
  qed
  then show "c1 = c \<or>
      (c1 = c\<lparr>fileLimitIsReached := True\<rparr> \<and> \<not> fileLimitIsReached c \<and>
       sint (maxFileSize c) \<le> sint (totalBytesStored c)) \<or>
      (\<exists>p0 buf c0.
         (p0 = currBytePos c \<and>
            \<not> TextLogger_FlushBufferIsNeeded c (ucast (strlen (format_time t))) \<or>
          p0 = 0 \<and> TextLogger_FlushBufferIsNeeded c (ucast (strlen (format_time t))) \<and>
            (\<exists>w0. TextLogger_FlushTextToFileStream w (Some c) =
                    Some (TEXTLOGGER_SUCCESS, Some (c\<lparr>currBytePos := 0\<rparr>), w0))) \<and>
         snprintf (pTextBuffer c) p0 (scast (maxBufferByteSize c - p0)) (format_time t) =
           Some (buf, of_nat (length (format_time t))) \<and>
         c0 = c\<lparr>pTextBuffer := buf,
                 currBytePos := p0 + of_nat (length (format_time t)),
                 totalBytesStored := totalBytesStored c + of_nat (length (format_time t))\<rparr> \<and>
         TextLogger_FlushBufferIsNeeded c0 (ucast (strlen msg + LOG_EXTRA_STR_LENGTH)) \<and>
         (c1 = c0 \<or>
          (c1 = c0\<lparr>fileLimitIsReached := True\<rparr> \<and> \<not> fileLimitIsReached c0 \<and>
           sint (maxFileSize c0) \<le> sint (totalBytesStored c0))))"
    by blast
qed

text \<open>
  Witness for C7: the marker that cannot be written, met by a flush and by a time stamp;
  and the error record \<open>msg34\<close> on a buffer with 48 of its 64 bytes pending, whose
  time stamp step flushes them and whose second flush fails: \<open>currBytePos\<close> goes
  from 48 to 24 and \<open>totalBytesStored\<close> from 48 to 72.
\<close>

theorem file_error_effects_witness:
  "TextLogger_FlushTextToFileStream w_fail (Some c_brim) =
     Some (TEXTLOGGER_ERR_FILE_ERROR, Some (c_brim\<lparr>fileLimitIsReached := True\<rparr>), w0) \<and>
   TextLogger_LogTimeStamp t0 w_fail (Some c_brim) =
     Some (TEXTLOGGER_ERR_FILE_ERROR, Some (c_brim\<lparr>fileLimitIsReached := True\<rparr>), w0) \<and>
   (c_brim\<lparr>fileLimitIsReached := True\<rparr> = c_brim \<or>
    \<not> fileLimitIsReached c_brim \<and> sint (maxFileSize c_brim) \<le> sint (totalBytesStored c_brim)) \<and>
   TextLogger_LogError t0 w_then_fail (Some c_twice) (Some msg34) =
     Some (TEXTLOGGER_ERR_FILE_ERROR, Some c_thrice, w_twice) \<and>
   currBytePos c_twice = 48 \<and> totalBytesStored c_twice = 48 \<and>
   currBytePos c_thrice = 24 \<and> totalBytesStored c_thrice = 72 \<and>
   (c_thrice = c_twice \<or>
    (c_thrice = c_twice\<lparr>fileLimitIsReached := True\<rparr> \<and> \<not> fileLimitIsReached c_twice \<and>
     sint (maxFileSize c_twice) \<le> sint (totalBytesStored c_twice)) \<or>
    (\<exists>p0 buf c0.
       (p0 = currBytePos c_twice \<and>
          \<not> TextLogger_FlushBufferIsNeeded c_twice (ucast (strlen (format_time t0))) \<or>
        p0 = 0 \<and> TextLogger_FlushBufferIsNeeded c_twice (ucast (strlen (format_time t0))) \<and>
          (\<exists>w1. TextLogger_FlushTextToFileStream w_then_fail (Some c_twice) =
                  Some (TEXTLOGGER_SUCCESS, Some (c_twice\<lparr>currBytePos := 0\<rparr>), w1))) \<and>
       snprintf (pTextBuffer c_twice) p0 (scast (maxBufferByteSize c_twice - p0))
           (format_time t0) =
         Some (buf, of_nat (length (format_time t0))) \<and>
       c0 = c_twice\<lparr>pTextBuffer := buf,
                     currBytePos := p0 + of_nat (length (format_time t0)),
                     totalBytesStored :=
                       totalBytesStored c_twice + of_nat (length (format_time t0))\<rparr> \<and>
       TextLogger_FlushBufferIsNeeded c0 (ucast (strlen msg34 + LOG_EXTRA_STR_LENGTH)) \<and>
       (c_thrice = c0 \<or>
        (c_thrice = c0\<lparr>fileLimitIsReached := True\<rparr> \<and> \<not> fileLimitIsReached c0 \<and>
         sint (maxFileSize c0) \<le> sint (totalBytesStored c0)))))"
proof -
  from file_error_effects [where w = w_fail and c = c_brim and t = t0
      and ?c1.0 = "c_brim\<lparr>fileLimitIsReached := True\<rparr>" and ?w1.0 = w0]
    eval_marker_fail
  have 1: "c_brim\<lparr>fileLimitIsReached := True\<rparr> = c_brim \<or>
    \<not> fileLimitIsReached c_brim \<and> sint (maxFileSize c_brim) \<le> sint (totalBytesStored c_brim)"
    by simp
  from file_error_effects [where w = w_then_fail and c = c_twice and t = t0
      and ?c1.0 = c_thrice and ?w1.0 = w_twice and level = LOG_LEVEL_ERROR and msg = msg34]
    eval_log_then_fail
  have 2: "c_thrice = c_twice \<or>
    (c_thrice = c_twice\<lparr>fileLimitIsReached := True\<rparr> \<and> \<not> fileLimitIsReached c_twice \<and>
     sint (maxFileSize c_twice) \<le> sint (totalBytesStored c_twice)) \<or>
    (\<exists>p0 buf c0.
       (p0 = currBytePos c_twice \<and>
          \<not> TextLogger_FlushBufferIsNeeded c_twice (ucast (strlen (format_time t0))) \<or>
        p0 = 0 \<and> TextLogger_FlushBufferIsNeeded c_twice (ucast (strlen (format_time t0))) \<and>
          (\<exists>w1. TextLogger_FlushTextToFileStream w_then_fail (Some c_twice) =
                  Some (TEXTLOGGER_SUCCESS, Some (c_twice\<lparr>currBytePos := 0\<rparr>), w1))) \<and>
       snprintf (pTextBuffer c_twice) p0 (scast (maxBufferByteSize c_twice - p0))
           (format_time t0) =
         Some (buf, of_nat (length (format_time t0))) \<and>
       c0 = c_twice\<lparr>pTextBuffer := buf,
                     currBytePos := p0 + of_nat (length (format_time t0)),
                     totalBytesStored :=
                       totalBytesStored c_twice + of_nat (length (format_time t0))\<rparr> \<and>
       TextLogger_FlushBufferIsNeeded c0 (ucast (strlen msg34 + LOG_EXTRA_STR_LENGTH)) \<and>
       (c_thrice = c0 \<or>
        (c_thrice = c0\<lparr>fileLimitIsReached := True\<rparr> \<and> \<not> fileLimitIsReached c0 \<and>
         sint (maxFileSize c0) \<le> sint (totalBytesStored c0))))"
    by simp
  have 3: "currBytePos c_twice = 48 \<and> totalBytesStored c_twice = 48 \<and>
           currBytePos c_thrice = 24 \<and> totalBytesStored c_thrice = 72"
    by (simp add: c_twice_def c_thrice_def)
  from 1 eval_marker_fail eval_stamp_fail eval_log_then_fail 3 show ?thesis
    by (intro conjI 2) simp_all
qed
section \<open>Create\<close>


text \<open>
  C9, as the code has it: \<open>TextLogger_Create\<close> answers null when \<open>pFilePath\<close> or
  \<open>pErrMsg\<close> is a null pointer (nothing tests for an empty string), and when
  \<open>maxFileSize - (strlen(pErrMsg) + 1)\<close> is at most 0, for every budget whose difference
  is still an \<^verbatim>\<open>int\<close>; otherwise, when \<^verbatim>\<open>malloc\<close> grants its four requests, it
  answers a context with both counters 0 and the limit flag false.
\<close>

theorem create_result:
  "TextLogger_Create malloc None errMsg level bufferSize fileSize = None \<and>
   TextLogger_Create malloc filePath None level bufferSize fileSize = None \<and>
   (- 2147483648 \<le> sint fileSize - (int (length err) + 1) \<longrightarrow>
    TextLogger_Create malloc (Some path) (Some err) level bufferSize fileSize =
      (if sint fileSize - (int (length err) + 1) \<le> 0 then None
       else if malloc sizeof_LoggerContext \<and> malloc (unat (strlen path + 1)) \<and>
               malloc (unat (scast bufferSize :: size_t)) \<and> malloc (unat (strlen err + 1))
       then Some \<lparr>pTextBuffer = replicate (unat (scast bufferSize :: size_t)) NUL,
                  pFilePath = path, pErrMsg = err, logLevel = level,
                  maxBufferByteSize = bufferSize,
                  maxFileSize = fileSize - (of_nat (length err) + 1),
                  currBytePos = 0, totalBytesStored = 0, fileLimitIsReached = False\<rparr>
       else None))"
proof (intro conjI impI)
  show "TextLogger_Create malloc None errMsg level bufferSize fileSize = None"
    by (simp add: TextLogger_Create_def)
  show "TextLogger_Create malloc filePath None level bufferSize fileSize = None"
    by (simp add: TextLogger_Create_def split: option.split)
qed (rule create_result_general)

text \<open>
  Witness for C9: the call of \<^verbatim>\<open>app.c\<close> succeeds with an effective budget of
  \<open>2048 - 13\<close>, and a budget of 12 bytes, one too few for the marker, is refused.
\<close>

theorem create_result_witness:
  "- 2147483648 \<le> sint (2048 :: c_int) - (int (length limit_marker) + 1) \<and>
   TextLogger_Create lp64_malloc (Some ''./TestLog.txt'') (Some limit_marker) 5 1024 2048 =
     Some \<lparr>pTextBuffer = replicate 1024 NUL, pFilePath = ''./TestLog.txt'',
           pErrMsg = limit_marker, logLevel = 5, maxBufferByteSize = 1024,
           maxFileSize = 2035, currBytePos = 0, totalBytesStored = 0,
           fileLimitIsReached = False\<rparr> \<and>
   - 2147483648 \<le> sint (13 :: c_int) - (int (length limit_marker) + 1) \<and>
   TextLogger_Create lp64_malloc (Some ''./TestLog.txt'') (Some limit_marker) 5 1024 13 = None"
  using create_result [where malloc = lp64_malloc and path = "''./TestLog.txt''"
      and err = limit_marker and level = 5 and bufferSize = 1024 and fileSize = 2048]
    create_result [where malloc = lp64_malloc and path = "''./TestLog.txt''"
      and err = limit_marker and level = 5 and bufferSize = 1024 and fileSize = 13]
  by (simp add: limit_marker_def create_defs)

text \<open>
  C9 as the specification states it fails: an empty \<open>pFilePath\<close> and an empty
  \<open>pErrMsg\<close> are both accepted, and the budget \<^verbatim>\<open>INT_MIN\<close> with a one-byte
  marker, whose difference \<open>INT_MIN - 2\<close> is below 0, wraps to \<open>INT_MAX - 1\<close> and is
  accepted as well.
\<close>

theorem create_accepts_empty_strings:
  "TextLogger_Create lp64_malloc (Some '''') (Some ''X'') 5 1024 2048 =
     Some \<lparr>pTextBuffer = replicate 1024 NUL, pFilePath = '''', pErrMsg = ''X'', logLevel = 5,
           maxBufferByteSize = 1024, maxFileSize = 2046, currBytePos = 0,
           totalBytesStored = 0, fileLimitIsReached = False\<rparr> \<and>
   TextLogger_Create lp64_malloc (Some ''./TestLog.txt'') (Some '''') 5 1024 2048 =
     Some \<lparr>pTextBuffer = replicate 1024 NUL, pFilePath = ''./TestLog.txt'', pErrMsg = '''',
           logLevel = 5, maxBufferByteSize = 1024, maxFileSize = 2047, currBytePos = 0,
           totalBytesStored = 0, fileLimitIsReached = False\<rparr> \<and>
   sint (- 2147483648 :: c_int) - (int (length ''X'') + 1) \<le> 0 \<and>
   TextLogger_Create lp64_malloc (Some ''./TestLog.txt'') (Some ''X'') 5 1024 (- 2147483648) =
     Some \<lparr>pTextBuffer = replicate 1024 NUL, pFilePath = ''./TestLog.txt'', pErrMsg = ''X'',
           logLevel = 5, maxBufferByteSize = 1024, maxFileSize = 2147483646, currBytePos = 0,
           totalBytesStored = 0, fileLimitIsReached = False\<rparr>"
  by (simp add: create_defs)

text \<open>
  C10, as the code has it: \<open>TextLogger_Create\<close> never tests \<open>maxBufferByteSize\<close>. For
  a capacity that is 0 or negative, with both strings present and a budget that leaves room
  after the marker, it answers a context with that capacity exactly when \<^verbatim>\<open>malloc\<close>
  grants its four requests. The request for the buffer is the capacity converted to
  \<^verbatim>\<open>size_t\<close>: 0 bytes for the capacity 0, and \<open>2^64\<close> plus the capacity for a
  negative one.
\<close>

theorem create_nonpositive_buffer:
  assumes "sint bufferSize \<le> 0" and "int (length err) + 1 < sint fileSize"
  shows "TextLogger_Create malloc (Some path) (Some err) level bufferSize fileSize =
           (if malloc sizeof_LoggerContext \<and> malloc (unat (strlen path + 1)) \<and>
               malloc (if bufferSize = 0 then 0 else nat (18446744073709551616 + sint bufferSize)) \<and>
               malloc (unat (strlen err + 1))
            then Some \<lparr>pTextBuffer =
                         replicate (if bufferSize = 0 then 0
                                    else nat (18446744073709551616 + sint bufferSize)) NUL,
                       pFilePath = path, pErrMsg = err, logLevel = level,
                       maxBufferByteSize = bufferSize,
                       maxFileSize = fileSize - (of_nat (length err) + 1),
                       currBytePos = 0, totalBytesStored = 0, fileLimitIsReached = False\<rparr>
            else None)"
proof -
  have req: "unat (scast bufferSize :: size_t) =
               (if bufferSize = 0 then 0 else nat (18446744073709551616 + sint bufferSize))"
  proof (cases "bufferSize = 0")
    case True
    then show ?thesis by simp
  next
    case False
    then have "sint bufferSize \<noteq> 0" by (simp add: signed_eq_0_iff)
    with assms(1) have "sint bufferSize < 0" by simp
    then show ?thesis using False by (simp only: unat_scast_neg if_False)
  qed
  have "- 2147483648 \<le> sint fileSize - (int (length err) + 1)" using assms(2) by simp
  with create_result_general [where fileSize = fileSize and err = err and malloc = malloc
      and path = path and bufferSize = bufferSize and level = level] assms(2)
  show ?thesis by (simp only: req) simp
qed

text \<open>Witness for C10: the capacity 0 gives a context whose buffer has no bytes.\<close>

theorem create_nonpositive_buffer_witness:
  "sint (0 :: c_int) \<le> 0 \<and> int (length ''X'') + 1 < sint (2048 :: c_int) \<and>
   TextLogger_Create lp64_malloc (Some ''./TestLog.txt'') (Some ''X'') 5 0 2048 =
     Some \<lparr>pTextBuffer = [], pFilePath = ''./TestLog.txt'', pErrMsg = ''X'', logLevel = 5,
           maxBufferByteSize = 0, maxFileSize = 2046, currBytePos = 0,
           totalBytesStored = 0, fileLimitIsReached = False\<rparr>"
  using create_nonpositive_buffer [where malloc = lp64_malloc and path = "''./TestLog.txt''"
      and err = "''X''" and level = 5 and bufferSize = 0 and fileSize = 2048]
  by (simp add: create_defs)

text \<open>
  C10 as stated fails for a negative capacity: the request for the buffer is then
  \<open>2^64 - 1\<close> bytes, the allocator refuses it, and create answers null.
\<close>

theorem create_negative_buffer_refused:
  "TextLogger_Create lp64_malloc (Some ''./TestLog.txt'') (Some ''X'') 5 (- 1) 2048 = None"
  by (simp add: create_defs unat_minus_one)

section \<open>The flush decision\<close>

text \<open>
  C5 says that, for every context state and every length, the flush decision is true if
  and only if \<open>maxFileSize - totalBytesStored \<le> length\<close> or
  \<open>maxBufferByteSize - currBytePos \<le> length\<close>. On the code it fails where a
  difference is not a value of \<^verbatim>\<open>int\<close>. With the budget 2147483646, which create
  gives for the file size 2147483647 and an empty marker, and a count of stored bytes of
  -2147483635, the difference 4294967281 comes out of the 32 bits of an \<^verbatim>\<open>int\<close>
  as -15: the decision is true for the length 24, although neither comparison holds.
\<close>

theorem flush_decision_wraps:
  "TextLogger_FlushBufferIsNeeded c_wrap 24 \<and>
   \<not> (sint (maxFileSize c_wrap) - sint (totalBytesStored c_wrap) \<le> sint (24 :: c_int) \<or>
      sint (maxBufferByteSize c_wrap) - sint (currBytePos c_wrap) \<le> sint (24 :: c_int)) \<and>
   sint (maxFileSize c_wrap) - sint (totalBytesStored c_wrap) = 4294967281 \<and>
   sint (maxFileSize c_wrap - totalBytesStored c_wrap) = - 15 \<and>
   TextLogger_Create lp64_malloc (Some ''./TestLog.txt'') (Some []) 5 64 2147483647 =
     Some (c_wrap\<lparr>currBytePos := 0, totalBytesStored := 0\<rparr>)"
  by (simp add: TextLogger_FlushBufferIsNeeded_def c_wrap_def create_defs)

text \<open>
  C5, as the code has it: for every context and every length, the flush decision is true
  if and only if one of the two differences, taken in the 32 bits of an \<^verbatim>\<open>int\<close>,
  is at most the length. Each of the two is the mathematical difference whenever that
  lies between \<open>-2^31\<close> and \<open>2^31 - 1\<close>; so for every context in which both do,
  the decision is true if and only if \<open>maxFileSize - totalBytesStored \<le> length\<close> or
  \<open>maxBufferByteSize - currBytePos \<le> length\<close>.
\<close>

theorem flush_decision_iff:
  "(TextLogger_FlushBufferIsNeeded c len_next \<longleftrightarrow>
      sint (maxFileSize c - totalBytesStored c) \<le> sint len_next \<or>
      sint (maxBufferByteSize c - currBytePos c) \<le> sint len_next) \<and>
   (- 2147483648 \<le> sint (maxFileSize c) - sint (totalBytesStored c) \<and>
    sint (maxFileSize c) - sint (totalBytesStored c) \<le> 2147483647 \<longrightarrow>
      sint (maxFileSize c - totalBytesStored c) =
        sint (maxFileSize c) - sint (totalBytesStored c)) \<and>
   (- 2147483648 \<le> sint (maxBufferByteSize c) - sint (currBytePos c) \<and>
    sint (maxBufferByteSize c) - sint (currBytePos c) \<le> 2147483647 \<longrightarrow>
      sint (maxBufferByteSize c - currBytePos c) =
        sint (maxBufferByteSize c) - sint (currBytePos c)) \<and>
   (- 2147483648 \<le> sint (maxFileSize c) - sint (totalBytesStored c) \<and>
    sint (maxFileSize c) - sint (totalBytesStored c) \<le> 2147483647 \<and>
    - 2147483648 \<le> sint (maxBufferByteSize c) - sint (currBytePos c) \<and>
    sint (maxBufferByteSize c) - sint (currBytePos c) \<le> 2147483647 \<longrightarrow>
      (TextLogger_FlushBufferIsNeeded c len_next \<longleftrightarrow>
         sint (maxFileSize c) - sint (totalBytesStored c) \<le> sint len_next \<or>
         sint (maxBufferByteSize c) - sint (currBytePos c) \<le> sint len_next))"
  by (simp add: flush_needed_iff sint_sub_in_range)

text \<open>
  Witness for C5: with 31 bytes of room left in the buffer, a text of 31 bytes asks for a
  flush and a text of 30 bytes does not.
\<close>

theorem flush_decision_iff_witness:
  "- 2147483648 \<le> sint (2035 :: c_int) - sint (33 :: c_int) \<and>
   sint (2035 :: c_int) - sint (33 :: c_int) \<le> 2147483647 \<and>
   - 2147483648 \<le> sint (64 :: c_int) - sint (33 :: c_int) \<and>
   sint (64 :: c_int) - sint (33 :: c_int) \<le> 2147483647 \<and>
   TextLogger_FlushBufferIsNeeded
     \<lparr>pTextBuffer = replicate 64 NUL, pFilePath = ''./TestLog.txt'', pErrMsg = limit_marker,
      logLevel = 5, maxBufferByteSize = 64, maxFileSize = 2035, currBytePos = 33,
      totalBytesStored = 33, fileLimitIsReached = False\<rparr> 31 \<and>
   \<not> TextLogger_FlushBufferIsNeeded
     \<lparr>pTextBuffer = replicate 64 NUL, pFilePath = ''./TestLog.txt'', pErrMsg = limit_marker,
      logLevel = 5, maxBufferByteSize = 64, maxFileSize = 2035, currBytePos = 33,
      totalBytesStored = 33, fileLimitIsReached = False\<rparr> 30"
  using flush_decision_iff [where len_next = 31 and c = "\<lparr>pTextBuffer = replicate 64 NUL,
      pFilePath = ''./TestLog.txt'', pErrMsg = limit_marker,
      logLevel = 5, maxBufferByteSize = 64, maxFileSize = 2035, currBytePos = 33,
      totalBytesStored = 33, fileLimitIsReached = False\<rparr>"]
    flush_decision_iff [where len_next = 30 and c = "\<lparr>pTextBuffer = replicate 64 NUL,
      pFilePath = ''./TestLog.txt'', pErrMsg = limit_marker,
      logLevel = 5, maxBufferByteSize = 64, maxFileSize = 2035, currBytePos = 33,
      totalBytesStored = 33, fileLimitIsReached = False\<rparr>"]
  by simp

section \<open>Admission\<close>

text \<open>
  C8: each per-severity call on a context and a text that are both present admits the
  record, handing it to \<open>TextLogger_WriteToBuffer\<close>, if and only if its level
  (error 1, warn 2, info 3, debug 4, verbose 5) is at most the context's \<open>logLevel\<close>;
  otherwise it returns success and leaves the context and the world, and so the buffer,
  the counters and the file, as they were.
\<close>

theorem admission_rule:
  "TextLogger_LogError t w (Some c) (Some msg) =
     (if 1 \<le> sint (logLevel c)
      then returning (TextLogger_WriteToBuffer t w c msg
                        (ucast (strlen msg + LOG_EXTRA_STR_LENGTH)) LOG_LEVEL_ERROR)
      else Some (TEXTLOGGER_SUCCESS, Some c, w)) \<and>
   TextLogger_LogWarn t w (Some c) (Some msg) =
     (if 2 \<le> sint (logLevel c)
      then returning (TextLogger_WriteToBuffer t w c msg
                        (ucast (strlen msg + LOG_EXTRA_STR_LENGTH)) LOG_LEVEL_WARN)
      else Some (TEXTLOGGER_SUCCESS, Some c, w)) \<and>
   TextLogger_LogInfo t w (Some c) (Some msg) =
     (if 3 \<le> sint (logLevel c)
      then returning (TextLogger_WriteToBuffer t w c msg
                        (ucast (strlen msg + LOG_EXTRA_STR_LENGTH)) LOG_LEVEL_INFO)
      else Some (TEXTLOGGER_SUCCESS, Some c, w)) \<and>
   TextLogger_LogDebug t w (Some c) (Some msg) =
     (if 4 \<le> sint (logLevel c)
      then returning (TextLogger_WriteToBuffer t w c msg
                        (ucast (strlen msg + LOG_EXTRA_STR_LENGTH)) LOG_LEVEL_DEBUG)
      else Some (TEXTLOGGER_SUCCESS, Some c, w)) \<and>
   TextLogger_LogVerbose t w (Some c) (Some msg) =
     (if 5 \<le> sint (logLevel c)
      then returning (TextLogger_WriteToBuffer t w c msg
                        (ucast (strlen msg + LOG_EXTRA_STR_LENGTH)) LOG_LEVEL_VERBOSE)
      else Some (TEXTLOGGER_SUCCESS, Some c, w))"
  by (simp add: TextLogger_LogError_def TextLogger_LogWarn_def TextLogger_LogInfo_def
        TextLogger_LogDebug_def TextLogger_LogVerbose_def log_call_def)

text \<open>
  Witness for C8: a context at level warn buffers an error record and drops an info, a
  debug and a verbose record.
\<close>

theorem admission_rule_witness:
  "TextLogger_LogError t0 w0 (Some c_warn) (Some ''e'') =
     Some (TEXTLOGGER_SUCCESS, Some c_logged, w0) \<and>
   TextLogger_LogInfo t0 w0 (Some c_warn) (Some ''e'') =
     Some (TEXTLOGGER_SUCCESS, Some c_warn, w0) \<and>
   TextLogger_LogDebug t0 w0 (Some c_warn) (Some ''e'') =
     Some (TEXTLOGGER_SUCCESS, Some c_warn, w0) \<and>
   TextLogger_LogVerbose t0 w0 (Some c_warn) (Some ''e'') =
     Some (TEXTLOGGER_SUCCESS, Some c_warn, w0)"
proof -
  have l: "logLevel c_warn = 2" by (simp add: c_warn_def)
  from admission_rule [where t = t0 and w = w0 and c = c_warn and msg = "''e''"] eval_log
  show ?thesis by (simp add: l)
qed

end
